theory Spec2Isabelle
  imports Complex_Main "HOL-Library.Multiset"
begin

section \<open>Data model\<close>

text \<open>
  The repository reaches its data in two ways. The Express server (routes and the
  class DatabaseStorage) runs statements through Drizzle on a database whose tables are
  those of \<^verbatim>\<open>shared/schema.ts\<close>; that schema declares no trigger, and the handlers write
  the history rows themselves. The React pages talk to Supabase, whose tables are those
  of the SQL migration; there the trigger \<^verbatim>\<open>track_order_state_change\<close> writes the history
  rows. Both declare the same columns for \<^verbatim>\<open>orders\<close> and \<^verbatim>\<open>order_state_history\<close>, so
  one type of database serves both; the statements of the storage layer never fire the
  trigger, the statements of the Supabase side always do.

  A table is the list of its rows in insertion order. Column names carry a one-letter
  prefix of their table (\<open>o_\<close> orders, \<open>h_\<close> order state history, \<open>s_\<close> sellers,
  \<open>p_\<close> profiles), since a record field is a global constant; of \<^verbatim>\<open>profiles\<close> and
  \<^verbatim>\<open>sellers\<close> only the columns that the order code reads are kept. Identifiers (uuid) are
  opaque strings, timestamps are natural numbers.

  JavaScript numbers and decimal strings are modelled by the rational number they denote:
  arithmetic on them is exact in this model, which does not represent the rounding error
  of IEEE doubles. A column of type DECIMAL(10,2) stores the value rounded to two places.
\<close>

type_synonym uuid = string
type_synonym timestamp = nat

datatype order_status =
  created | pending_verification | seller_contacted | seller_accepted | seller_rejected
  | buyer_contacted | buyer_confirmed | buyer_rejected | confirmed | out_for_delivery
  | delivered | completed | rejected

datatype payment_status = pending | partial_pending | partial_paid | paid | failed | refunded

datatype payment_method = online | cod

record OrderItem =
  i_product_id :: uuid
  i_title :: string
  i_quantity :: int
  i_price :: rat
  i_unit :: string

record Address =
  a_line1 :: string
  a_line2 :: string
  a_city :: string
  a_state :: string
  a_pinCode :: string

record Profile =
  p_id :: uuid
  p_role :: string
  p_phone :: string
  p_name :: string

record Seller =
  s_id :: uuid
  s_user_id :: uuid
  s_shop_name :: string
  s_status :: string

record Order =
  o_id :: uuid
  o_customer_id :: uuid
  o_seller_id :: uuid
  o_items :: "OrderItem list"
  o_subtotal :: rat
  o_delivery_charges :: "rat option"
  o_total :: rat
  o_payment_method :: payment_method
  o_payment_status :: payment_status
  o_prepayment_amount :: "rat option"
  o_status :: order_status
  o_delivery_address :: Address
  o_verified_by_admin_id :: "uuid option"
  o_seller_response :: "string option"
  o_buyer_response :: "string option"
  o_reject_reason :: "string option"
  o_contact_attempts :: "int option"
  o_created_at :: timestamp
  o_updated_at :: timestamp

record OrderStateHistory =
  h_id :: uuid
  h_order_id :: uuid
  h_status :: order_status
  h_changed_by :: "uuid option"
  h_note :: "string option"
  h_created_at :: timestamp

record database =
  profiles :: "Profile list"
  sellers :: "Seller list"
  orders :: "Order list"
  orderStateHistory :: "OrderStateHistory list"

text \<open>
  The values a write receives for the columns of \<^verbatim>\<open>orders\<close>: the type
  \<^verbatim>\<open>Partial<InsertOrder>\<close> of the storage layer, which is also the shape of the row object
  the checkout page inserts. \<open>None\<close> is an absent key; for a nullable column \<open>Some None\<close>
  is an explicit null. \<open>b_note\<close> is the extra key \<^verbatim>\<open>note\<close> that the PATCH handler reads
  from the request body (absent and null both give \<open>None\<close>).

  A body of the model is well typed: a key that is present holds a value of the
  TypeScript type that \<^verbatim>\<open>InsertOrder\<close> gives it (a decimal string that denotes a number, a
  member of the enumeration, a number for \<^verbatim>\<open>contactAttempts\<close>; for \<^verbatim>\<open>items\<close> and
  \<^verbatim>\<open>deliveryAddress\<close>, which that type leaves open, a value of the shape that the checkout
  page gives them), and the keys that \<^verbatim>\<open>InsertOrder\<close> omits (\<^verbatim>\<open>id\<close>, \<^verbatim>\<open>createdAt\<close>,
  \<^verbatim>\<open>updatedAt\<close>) are absent. Whether the database accepts the value is another matter,
  settled below column by column.
\<close>

record OrderBody =
  b_customerId :: "uuid option"
  b_sellerId :: "uuid option"
  b_items :: "OrderItem list option"
  b_subtotal :: "rat option"
  b_deliveryCharges :: "rat option option"
  b_total :: "rat option"
  b_paymentMethod :: "payment_method option"
  b_paymentStatus :: "payment_status option"
  b_prepaymentAmount :: "rat option option"
  b_status :: "order_status option"
  b_deliveryAddress :: "Address option"
  b_verifiedByAdminId :: "uuid option option"
  b_sellerResponse :: "string option option"
  b_buyerResponse :: "string option option"
  b_rejectReason :: "string option option"
  b_contactAttempts :: "rat option option"
  b_note :: "string option"

text \<open>The argument of \<^verbatim>\<open>createOrderStateHistory\<close> (type \<^verbatim>\<open>InsertOrderStateHistory\<close>).\<close>

record InsertOrderStateHistory =
  n_orderId :: uuid
  n_status :: order_status
  n_changedBy :: "uuid option"
  n_note :: "string option"

text \<open>
  What the database draws while a request runs: \<^verbatim>\<open>gen_random_uuid()\<close> for a new order
  row and for a new history row, and the current time (\<^verbatim>\<open>now()\<close>, \<^verbatim>\<open>new Date()\<close>).
  They are inputs of the model, so every theorem holds for all of them.
\<close>

record drawn =
  order_uuid :: uuid
  history_uuid :: uuid
  now_at :: timestamp

text \<open>
  The errors of the database. \<open>data_exception\<close> stands for every error of a value that
  the type of its column cannot hold, other than the overflow of a decimal, which has a
  name of its own.
\<close>

datatype db_error =
  not_null_violation | numeric_field_overflow | foreign_key_violation
  | row_level_security_violation | invalid_enum_value | data_exception

subsection \<open>DECIMAL(10,2)\<close>

text \<open>
  PostgreSQL rounds a numeric to the column's scale with ties away from zero, and raises
  \<^verbatim>\<open>numeric field overflow\<close> when the rounded value needs more than eight digits before
  the point.
\<close>

definition round_half_away :: "rat \<Rightarrow> int" where
  "round_half_away x = (if 0 \<le> x then \<lfloor>x + 1 / 2\<rfloor> else - \<lfloor>- x + 1 / 2\<rfloor>)"

definition round2 :: "rat \<Rightarrow> rat" where
  "round2 x = of_int (round_half_away (x * 100)) / 100"

definition numeric_10_2 :: "rat \<Rightarrow> rat option" where
  "numeric_10_2 x = (if \<bar>round2 x\<bar> < 10 ^ 8 then Some (round2 x) else None)"

definition numeric_10_2_null :: "rat option \<Rightarrow> rat option option" where
  "numeric_10_2_null v = (case v of None \<Rightarrow> Some None | Some x \<Rightarrow> map_option Some (numeric_10_2 x))"

text \<open>A number with at most two decimals, as every value read from a DECIMAL(10,2) column is.\<close>

definition two_decimals :: "rat \<Rightarrow> bool" where
  "two_decimals x = (of_int \<lfloor>x * 100\<rfloor> = x * 100)"

subsection \<open>INTEGER, text and jsonb\<close>

text \<open>
  An INTEGER column holds the whole numbers of 32 bits: a number with a fraction, or one
  out of that range, is refused. A string, in a text column or inside a jsonb value,
  cannot hold the character U+0000. A string of the model is the list of its characters,
  each of one byte.
\<close>

definition integer_value :: "rat \<Rightarrow> bool" where
  "integer_value x = (of_int \<lfloor>x\<rfloor> = x \<and> - (2 ^ 31) \<le> \<lfloor>x\<rfloor> \<and> \<lfloor>x\<rfloor> < 2 ^ 31)"

definition text_value :: "string \<Rightarrow> bool" where
  "text_value s = (CHR 0x00 \<notin> set s)"

definition jsonb_items :: "OrderItem list \<Rightarrow> bool" where
  "jsonb_items its =
     list_all (\<lambda>it. text_value (i_product_id it) \<and> text_value (i_title it) \<and> text_value (i_unit it)) its"

definition jsonb_address :: "Address \<Rightarrow> bool" where
  "jsonb_address a =
     (text_value (a_line1 a) \<and> text_value (a_line2 a) \<and> text_value (a_city a)
      \<and> text_value (a_state a) \<and> text_value (a_pinCode a))"

section \<open>The database: constraints and row operations\<close>

definition or_default :: "'a option \<Rightarrow> 'a \<Rightarrow> 'a" where
  "or_default v d = (case v of None \<Rightarrow> d | Some x \<Rightarrow> x)"

definition profile_exists :: "database \<Rightarrow> uuid \<Rightarrow> bool" where
  "profile_exists db u = (u \<in> set (map p_id (profiles db)))"

definition seller_exists :: "database \<Rightarrow> uuid \<Rightarrow> bool" where
  "seller_exists db u = (u \<in> set (map s_id (sellers db)))"

definition order_exists :: "database \<Rightarrow> uuid \<Rightarrow> bool" where
  "order_exists db u = (u \<in> set (map o_id (orders db)))"

text \<open>
  The values that a statement gives to columns of \<^verbatim>\<open>orders\<close> are checked in three
  stages. When the statement receives them, each must be a value of the type of its
  column (\<open>orders_values_refused\<close>). When the row is computed, each decimal is rounded to
  the scale of its column and must fit it (\<open>orders_decimals_overflow\<close>). When the
  statement ends, each reference must point to a row (\<open>orders_references_missing\<close>).
  A key that is absent, and a null, pass all three.
\<close>

definition orders_values_refused :: "OrderBody \<Rightarrow> bool" where
  "orders_values_refused v =
     ((case b_items v of None \<Rightarrow> False | Some its \<Rightarrow> \<not> jsonb_items its)
      \<or> (case b_deliveryAddress v of None \<Rightarrow> False | Some a \<Rightarrow> \<not> jsonb_address a)
      \<or> (case b_sellerResponse v of Some (Some t) \<Rightarrow> \<not> text_value t | _ \<Rightarrow> False)
      \<or> (case b_buyerResponse v of Some (Some t) \<Rightarrow> \<not> text_value t | _ \<Rightarrow> False)
      \<or> (case b_rejectReason v of Some (Some t) \<Rightarrow> \<not> text_value t | _ \<Rightarrow> False)
      \<or> (case b_contactAttempts v of Some (Some n) \<Rightarrow> \<not> integer_value n | _ \<Rightarrow> False))"

definition orders_decimals_overflow :: "OrderBody \<Rightarrow> bool" where
  "orders_decimals_overflow v =
     ((case b_subtotal v of None \<Rightarrow> False | Some x \<Rightarrow> numeric_10_2 x = None)
      \<or> (case b_total v of None \<Rightarrow> False | Some x \<Rightarrow> numeric_10_2 x = None)
      \<or> (case b_deliveryCharges v of None \<Rightarrow> False | Some d \<Rightarrow> numeric_10_2_null d = None)
      \<or> (case b_prepaymentAmount v of None \<Rightarrow> False | Some p \<Rightarrow> numeric_10_2_null p = None))"

definition orders_references_missing :: "database \<Rightarrow> OrderBody \<Rightarrow> bool" where
  "orders_references_missing db v =
     ((case b_customerId v of None \<Rightarrow> False | Some c \<Rightarrow> \<not> profile_exists db c)
      \<or> (case b_sellerId v of None \<Rightarrow> False | Some s \<Rightarrow> \<not> seller_exists db s)
      \<or> (case b_verifiedByAdminId v of Some (Some a) \<Rightarrow> \<not> profile_exists db a | _ \<Rightarrow> False))"

text \<open>
  A new row of \<^verbatim>\<open>orders\<close>. The columns \<^verbatim>\<open>customer_id\<close>, \<^verbatim>\<open>seller_id\<close>, \<^verbatim>\<open>items\<close>,
  \<^verbatim>\<open>subtotal\<close>, \<^verbatim>\<open>total\<close>, \<^verbatim>\<open>payment_method\<close> and \<^verbatim>\<open>delivery_address\<close> are NOT NULL and
  have no default; \<^verbatim>\<open>delivery_charges\<close> defaults to 0, \<^verbatim>\<open>payment_status\<close> to pending,
  \<^verbatim>\<open>status\<close> to created, \<^verbatim>\<open>contact_attempts\<close> to 0. \<^verbatim>\<open>customer_id\<close> and
  \<^verbatim>\<open>verified_by_admin_id\<close> reference \<^verbatim>\<open>profiles\<close>, \<^verbatim>\<open>seller_id\<close> references \<^verbatim>\<open>sellers\<close>.
  The primary key is drawn by the database and taken to be fresh.
\<close>

definition orders_new_row :: "database \<Rightarrow> uuid \<Rightarrow> timestamp \<Rightarrow> OrderBody \<Rightarrow> db_error + Order" where
  "orders_new_row db new_id now v =
     (if orders_values_refused v then Inl data_exception
      else if orders_decimals_overflow v then Inl numeric_field_overflow
      else if b_customerId v = None \<or> b_sellerId v = None \<or> b_items v = None \<or> b_subtotal v = None
         \<or> b_total v = None \<or> b_paymentMethod v = None \<or> b_deliveryAddress v = None
      then Inl not_null_violation
      else if orders_references_missing db v then Inl foreign_key_violation
      else Inr \<lparr>
        o_id = new_id,
        o_customer_id = the (b_customerId v),
        o_seller_id = the (b_sellerId v),
        o_items = the (b_items v),
        o_subtotal = round2 (the (b_subtotal v)),
        o_delivery_charges = map_option round2 (or_default (b_deliveryCharges v) (Some 0)),
        o_total = round2 (the (b_total v)),
        o_payment_method = the (b_paymentMethod v),
        o_payment_status = or_default (b_paymentStatus v) pending,
        o_prepayment_amount = map_option round2 (or_default (b_prepaymentAmount v) None),
        o_status = or_default (b_status v) created,
        o_delivery_address = the (b_deliveryAddress v),
        o_verified_by_admin_id = or_default (b_verifiedByAdminId v) None,
        o_seller_response = or_default (b_sellerResponse v) None,
        o_buyer_response = or_default (b_buyerResponse v) None,
        o_reject_reason = or_default (b_rejectReason v) None,
        o_contact_attempts = map_option floor (or_default (b_contactAttempts v) (Some 0)),
        o_created_at = now,
        o_updated_at = now \<rparr>)"

text \<open>
  The SET clause of an update of \<^verbatim>\<open>orders\<close>: the columns whose key is present take the
  new value, the others keep theirs; \<^verbatim>\<open>updated_at\<close> is always written.
\<close>

definition orders_set :: "OrderBody \<Rightarrow> timestamp \<Rightarrow> Order \<Rightarrow> Order" where
  "orders_set v now r = r \<lparr>
     o_customer_id := or_default (b_customerId v) (o_customer_id r),
     o_seller_id := or_default (b_sellerId v) (o_seller_id r),
     o_items := or_default (b_items v) (o_items r),
     o_subtotal := or_default (map_option round2 (b_subtotal v)) (o_subtotal r),
     o_delivery_charges := or_default (map_option (map_option round2) (b_deliveryCharges v)) (o_delivery_charges r),
     o_total := or_default (map_option round2 (b_total v)) (o_total r),
     o_payment_method := or_default (b_paymentMethod v) (o_payment_method r),
     o_payment_status := or_default (b_paymentStatus v) (o_payment_status r),
     o_prepayment_amount := or_default (map_option (map_option round2) (b_prepaymentAmount v)) (o_prepayment_amount r),
     o_status := or_default (b_status v) (o_status r),
     o_delivery_address := or_default (b_deliveryAddress v) (o_delivery_address r),
     o_verified_by_admin_id := or_default (b_verifiedByAdminId v) (o_verified_by_admin_id r),
     o_seller_response := or_default (b_sellerResponse v) (o_seller_response r),
     o_buyer_response := or_default (b_buyerResponse v) (o_buyer_response r),
     o_reject_reason := or_default (b_rejectReason v) (o_reject_reason r),
     o_contact_attempts := or_default (map_option (map_option floor) (b_contactAttempts v)) (o_contact_attempts r),
     o_updated_at := now \<rparr>"

text \<open>The error, if any, that the values of a SET clause raise.\<close>

definition orders_set_error :: "database \<Rightarrow> OrderBody \<Rightarrow> db_error option" where
  "orders_set_error db v =
     (if orders_values_refused v then Some data_exception
      else if orders_decimals_overflow v then Some numeric_field_overflow
      else if orders_references_missing db v then Some foreign_key_violation
      else None)"

text \<open>
  A new row of \<^verbatim>\<open>order_state_history\<close>: \<^verbatim>\<open>order_id\<close> references \<^verbatim>\<open>orders\<close> and
  \<^verbatim>\<open>changed_by\<close>, when it is not null, references \<^verbatim>\<open>profiles\<close>. The trigger builds the
  row from values that columns hold already, the storage layer from values it receives
  (see \<open>createOrderStateHistory\<close>).
\<close>

definition history_insert ::
  "database \<Rightarrow> uuid \<Rightarrow> timestamp \<Rightarrow> InsertOrderStateHistory \<Rightarrow> db_error + (database \<times> OrderStateHistory)" where
  "history_insert db new_id now d =
     (if \<not> order_exists db (n_orderId d)
         \<or> (case n_changedBy d of None \<Rightarrow> False | Some u \<Rightarrow> \<not> profile_exists db u)
      then Inl foreign_key_violation
      else (let row = \<lparr> h_id = new_id, h_order_id = n_orderId d, h_status = n_status d,
                        h_changed_by = n_changedBy d, h_note = n_note d, h_created_at = now \<rparr>
            in Inr (db \<lparr> orderStateHistory := orderStateHistory db @ [row] \<rparr>, row)))"

text \<open>ORDER BY a timestamp column, descending. The order of rows with equal timestamps is
  not fixed by SQL; the model picks one.\<close>

definition order_by_desc :: "('a \<Rightarrow> timestamp) \<Rightarrow> 'a list \<Rightarrow> 'a list" where
  "order_by_desc f xs = rev (sort_key f xs)"


section \<open>The storage layer (class DatabaseStorage)\<close>

text \<open>
  Each method issues one statement on the connection \<^verbatim>\<open>db\<close>; none of them opens a
  transaction. A method that throws is \<open>Inl\<close>, and leaves the database as it was.
  \<^verbatim>\<open>id\<close> is the primary key of \<^verbatim>\<open>orders\<close>, so \<^verbatim>\<open>const [order] = ...\<close> takes the row
  with that id.
\<close>

definition getOrder :: "database \<Rightarrow> uuid \<Rightarrow> Order option" where
  "getOrder db id' = find (\<lambda>r. o_id r = id') (orders db)"





definition createOrder :: "database \<Rightarrow> drawn \<Rightarrow> OrderBody \<Rightarrow> db_error + (database \<times> Order)" where
  "createOrder db g data =
     (case orders_new_row db (order_uuid g) (now_at g) data of
        Inl e \<Rightarrow> Inl e
      | Inr order \<Rightarrow> Inr (db \<lparr> orders := orders db @ [order] \<rparr>, order))"

definition updateOrder ::
  "database \<Rightarrow> drawn \<Rightarrow> uuid \<Rightarrow> OrderBody \<Rightarrow> db_error + (database \<times> Order option)" where
  "updateOrder db g id' data =
     (if find (\<lambda>r. o_id r = id') (orders db) = None then Inr (db, None)
      else (case orders_set_error db data of
              Some e \<Rightarrow> Inl e
            | None \<Rightarrow>
                (let rows = map (\<lambda>r. if o_id r = id' then orders_set data (now_at g) r else r) (orders db)
                 in Inr (db \<lparr> orders := rows \<rparr>, find (\<lambda>r. o_id r = id') rows))))"

definition getOrderStateHistory :: "database \<Rightarrow> uuid \<Rightarrow> OrderStateHistory list" where
  "getOrderStateHistory db orderId =
     order_by_desc h_created_at (filter (\<lambda>h. h_order_id h = orderId) (orderStateHistory db))"

text \<open>The note is a value that the statement receives: it must be a text.\<close>

definition createOrderStateHistory ::
  "database \<Rightarrow> drawn \<Rightarrow> InsertOrderStateHistory \<Rightarrow> db_error + (database \<times> OrderStateHistory)" where
  "createOrderStateHistory db g data =
     (if (case n_note data of None \<Rightarrow> False | Some t \<Rightarrow> \<not> text_value t) then Inl data_exception
      else history_insert db (history_uuid g) (now_at g) data)"

section \<open>Authentication (server/auth.ts)\<close>

text \<open>
  \<^verbatim>\<open>jwt.verify\<close> belongs to a library: it is a parameter, giving the decoded payload
  \<^verbatim>\<open>{userId, role}\<close> of a token, or \<open>None\<close> where it throws.
\<close>

type_synonym jwt_verify = "string \<Rightarrow> (uuid \<times> string) option"

datatype thrown = db_exception db_error | zod_error

datatype error_body = error_text string | error_message thrown

datatype 'a response = res_json 'a | res_status_json nat error_body

definition verifyToken :: "jwt_verify \<Rightarrow> string \<Rightarrow> (uuid \<times> string) option" where
  "verifyToken jwt token = jwt token"

text \<open>The middleware either answers 401 itself (\<open>Inl\<close>, the status and the body of the
  answer) or sets \<^verbatim>\<open>req.userId\<close> and \<^verbatim>\<open>req.userRole\<close> and calls the handler.\<close>

definition authMiddleware :: "jwt_verify \<Rightarrow> string option \<Rightarrow> (nat \<times> error_body) + (uuid \<times> string)" where
  "authMiddleware jwt auth_token =
     (case auth_token of
        None \<Rightarrow> Inl (401, error_text ''Not authenticated'')
      | Some token \<Rightarrow>
          if token = [] then Inl (401, error_text ''Not authenticated'')
          else (case verifyToken jwt token of
                  None \<Rightarrow> Inl (401, error_text ''Invalid token'')
                | Some (userId, userRole) \<Rightarrow> Inr (userId, userRole)))"

section \<open>The order routes\<close>



text \<open>GET /api/orders/:id\<close>

definition get_api_orders_id ::
  "jwt_verify \<Rightarrow> database \<Rightarrow> string option \<Rightarrow> uuid \<Rightarrow> Order response" where
  "get_api_orders_id jwt db auth_token id' =
     (case authMiddleware jwt auth_token of
        Inl (code, e) \<Rightarrow> res_status_json code e
      | Inr (userId, userRole) \<Rightarrow>
          (case getOrder db id' of
             None \<Rightarrow> res_status_json 404 (error_text ''Order not found'')
           | Some order \<Rightarrow> res_json order))"

text \<open>
  \<^verbatim>\<open>insertOrderSchema.parse\<close>: the columns without default must be present; keys that are
  not columns of the insert schema are dropped. \<open>None\<close> is a thrown ZodError. The bodies
  of the model being well typed, the schema has nothing else to refuse but values out of
  the range of their column; the model leaves those to the insert that follows, which
  refuses them as well, and the handler answers 500 in both cases.
\<close>

definition insertOrderSchema_parse :: "OrderBody \<Rightarrow> OrderBody option" where
  "insertOrderSchema_parse v =
     (if b_customerId v = None \<or> b_sellerId v = None \<or> b_items v = None \<or> b_subtotal v = None
         \<or> b_total v = None \<or> b_paymentMethod v = None \<or> b_deliveryAddress v = None
      then None
      else Some (v \<lparr> b_note := None \<rparr>))"

text \<open>POST /api/orders\<close>

definition post_api_orders ::
  "jwt_verify \<Rightarrow> database \<Rightarrow> drawn \<Rightarrow> string option \<Rightarrow> OrderBody \<Rightarrow> database \<times> Order response" where
  "post_api_orders jwt db g auth_token body =
     (case authMiddleware jwt auth_token of
        Inl (code, e) \<Rightarrow> (db, res_status_json code e)
      | Inr (userId, userRole) \<Rightarrow>
          (case insertOrderSchema_parse (body \<lparr> b_customerId := Some userId \<rparr>) of
             None \<Rightarrow> (db, res_status_json 500 (error_message zod_error))
           | Some data \<Rightarrow>
               (case createOrder db g data of
                  Inl e \<Rightarrow> (db, res_status_json 500 (error_message (db_exception e)))
                | Inr (db1, order) \<Rightarrow>
                    (case createOrderStateHistory db1 g
                            \<lparr> n_orderId = o_id order, n_status = o_status order,
                              n_changedBy = Some userId, n_note = None \<rparr> of
                       Inl e \<Rightarrow> (db1, res_status_json 500 (error_message (db_exception e)))
                     | Inr (db2, history) \<Rightarrow> (db2, res_json order)))))"

text \<open>
  PATCH /api/orders/:id. The order is read, then updated, then the history row is
  written: three statements, each on its own. When the last one throws, the handler
  answers 500 and the update of the second one stays.
\<close>

definition patch_api_orders_id ::
  "jwt_verify \<Rightarrow> database \<Rightarrow> drawn \<Rightarrow> string option \<Rightarrow> uuid \<Rightarrow> OrderBody
     \<Rightarrow> database \<times> Order option response" where
  "patch_api_orders_id jwt db g auth_token id' body =
     (case authMiddleware jwt auth_token of
        Inl (code, e) \<Rightarrow> (db, res_status_json code e)
      | Inr (userId, userRole) \<Rightarrow>
          (case getOrder db id' of
             None \<Rightarrow> (db, res_status_json 404 (error_text ''Order not found''))
           | Some order \<Rightarrow>
               (case updateOrder db g id' body of
                  Inl e \<Rightarrow> (db, res_status_json 500 (error_message (db_exception e)))
                | Inr (db1, updatedOrder) \<Rightarrow>
                    if b_status body \<noteq> None \<and> b_status body \<noteq> Some (o_status order) then
                      (case createOrderStateHistory db1 g
                              \<lparr> n_orderId = o_id order, n_status = the (b_status body),
                                n_changedBy = Some userId, n_note = b_note body \<rparr> of
                         Inl e \<Rightarrow> (db1, res_status_json 500 (error_message (db_exception e)))
                       | Inr (db2, history) \<Rightarrow> (db2, res_json updatedOrder))
                    else (db1, res_json updatedOrder))))"

text \<open>GET /api/orders/:id/history\<close>

definition get_api_orders_id_history ::
  "jwt_verify \<Rightarrow> database \<Rightarrow> string option \<Rightarrow> uuid \<Rightarrow> OrderStateHistory list response" where
  "get_api_orders_id_history jwt db auth_token id' =
     (case authMiddleware jwt auth_token of
        Inl (code, e) \<Rightarrow> res_status_json code e
      | Inr (userId, userRole) \<Rightarrow> res_json (getOrderStateHistory db id'))"

section \<open>The SQL migration: the trigger on orders\<close>

text \<open>
  \<^verbatim>\<open>track_order_state_change\<close> runs AFTER INSERT OR UPDATE, FOR EACH ROW, inside the
  statement that fired it: an error it raises aborts that statement. \<open>auth_uid\<close> is
  \<^verbatim>\<open>auth.uid()\<close>, null when the session has no user.
\<close>

datatype tg_op = INSERT | UPDATE

definition track_order_state_change ::
  "tg_op \<Rightarrow> Order option \<Rightarrow> Order \<Rightarrow> uuid option \<Rightarrow> drawn \<Rightarrow> database \<Rightarrow> db_error + database" where
  "track_order_state_change TG_OP OLD NEW auth_uid g db =
     (if TG_OP = INSERT \<or> map_option o_status OLD \<noteq> Some (o_status NEW) then
        (case history_insert db (history_uuid g) (now_at g)
                \<lparr> n_orderId = o_id NEW, n_status = o_status NEW, n_changedBy = auth_uid,
                  n_note = (case o_reject_reason NEW of
                              Some r \<Rightarrow> Some r
                            | None \<Rightarrow>
                                (case o_seller_response NEW of
                                   Some r \<Rightarrow> Some r
                                 | None \<Rightarrow> o_buyer_response NEW)) \<rparr> of
           Inl e \<Rightarrow> Inl e
         | Inr (db', row) \<Rightarrow> Inr db')
      else Inr db)"

text \<open>
  INSERT INTO orders, as the checkout page issues it through the Supabase client. The
  policy "Customers can create orders" checks \<^verbatim>\<open>auth.uid() = customer_id\<close>.
\<close>

definition insert_into_orders ::
  "database \<Rightarrow> uuid option \<Rightarrow> drawn \<Rightarrow> OrderBody \<Rightarrow> db_error + database" where
  "insert_into_orders db auth_uid g v =
     (if auth_uid = None \<or> b_customerId v \<noteq> auth_uid then Inl row_level_security_violation
      else (case orders_new_row db (order_uuid g) (now_at g) v of
              Inl e \<Rightarrow> Inl e
            | Inr NEW \<Rightarrow>
                track_order_state_change INSERT None NEW auth_uid g
                  (db \<lparr> orders := orders db @ [NEW] \<rparr>)))"

text \<open>
  UPDATE orders SET ... WHERE id = ..., run by a role that row level security lets
  through (the migration declares no UPDATE policy on orders). The BEFORE UPDATE trigger
  \<^verbatim>\<open>update_updated_at_column\<close> writes \<^verbatim>\<open>updated_at\<close>; \<^verbatim>\<open>id\<close> is the primary key, so one row
  at most is updated and fires the AFTER trigger.
\<close>

definition update_orders ::
  "database \<Rightarrow> uuid option \<Rightarrow> drawn \<Rightarrow> uuid \<Rightarrow> OrderBody \<Rightarrow> db_error + database" where
  "update_orders db auth_uid g id' v =
     (case find (\<lambda>r. o_id r = id') (orders db) of
        None \<Rightarrow> Inr db
      | Some OLD \<Rightarrow>
          (case orders_set_error db v of
             Some e \<Rightarrow> Inl e
           | None \<Rightarrow>
               track_order_state_change UPDATE (Some OLD) (orders_set v (now_at g) OLD) auth_uid g
                 (db \<lparr> orders := map (\<lambda>r. if o_id r = id' then orders_set v (now_at g) r else r)
                                    (orders db) \<rparr>)))"

section \<open>The checkout page (handleCheckout)\<close>

record CartItem =
  c_id :: uuid
  c_title :: string
  c_price :: rat
  c_unit :: string
  c_quantity :: int
  c_seller_id :: uuid

datatype checkout_error = not_authenticated | insert_error db_error

datatype checkout_result = incomplete_address | error_toast checkout_error | order_placed

text \<open>The keys of \<^verbatim>\<open>sellerGroups\<close>, in the order they were first added.\<close>

fun first_occurrences :: "'a list \<Rightarrow> 'a list" where
  "first_occurrences [] = []"
| "first_occurrences (x # xs) = x # filter (\<lambda>y. y \<noteq> x) (first_occurrences xs)"

definition sellerGroup :: "CartItem list \<Rightarrow> uuid \<Rightarrow> CartItem list" where
  "sellerGroup cartItems sellerId = filter (\<lambda>item. c_seller_id item = sellerId) cartItems"

definition cart_subtotal :: "CartItem list \<Rightarrow> rat" where
  "cart_subtotal items = fold (\<lambda>item sum. sum + c_price item * of_int (c_quantity item)) items 0"

definition orderData :: "uuid \<Rightarrow> uuid \<Rightarrow> payment_method \<Rightarrow> Address \<Rightarrow> CartItem list \<Rightarrow> OrderBody" where
  "orderData user_id sellerId paymentMethod address items =
     (let subtotal = cart_subtotal items;
          deliveryCharges = 50;
          total = subtotal + deliveryCharges;
          prepaymentAmount = (if paymentMethod = cod then Some (total * 0.2) else None)
      in \<lparr> b_customerId = Some user_id,
           b_sellerId = Some sellerId,
           b_items = Some (map (\<lambda>item. \<lparr> i_product_id = c_id item, i_title = c_title item,
                                         i_quantity = c_quantity item, i_price = c_price item,
                                         i_unit = c_unit item \<rparr>) items),
           b_subtotal = Some subtotal,
           b_deliveryCharges = Some (Some deliveryCharges),
           b_total = Some total,
           b_paymentMethod = Some paymentMethod,
           b_paymentStatus = Some pending,
           b_prepaymentAmount = Some prepaymentAmount,
           b_status = Some pending_verification,
           b_deliveryAddress = Some address,
           b_verifiedByAdminId = None,
           b_sellerResponse = None,
           b_buyerResponse = None,
           b_rejectReason = None,
           b_contactAttempts = None,
           b_note = None \<rparr>)"

text \<open>The loop over the sellers: one insert each, stopping at the first error. \<open>g k\<close> is
  what the database draws for the \<open>k\<close>-th insert.\<close>

fun checkout_loop ::
  "(nat \<Rightarrow> drawn) \<Rightarrow> uuid \<Rightarrow> payment_method \<Rightarrow> Address \<Rightarrow> CartItem list \<Rightarrow> nat \<Rightarrow> uuid list
     \<Rightarrow> database \<Rightarrow> database \<times> db_error option" where
  "checkout_loop g user_id paymentMethod address cartItems k [] db = (db, None)"
| "checkout_loop g user_id paymentMethod address cartItems k (sellerId # rest) db =
     (case insert_into_orders db (Some user_id) (g k)
             (orderData user_id sellerId paymentMethod address (sellerGroup cartItems sellerId)) of
        Inl e \<Rightarrow> (db, Some e)
      | Inr db' \<Rightarrow> checkout_loop g user_id paymentMethod address cartItems (Suc k) rest db')"

definition handleCheckout ::
  "(nat \<Rightarrow> drawn) \<Rightarrow> database \<Rightarrow> uuid option \<Rightarrow> payment_method \<Rightarrow> Address \<Rightarrow> CartItem list
     \<Rightarrow> database \<times> checkout_result" where
  "handleCheckout g db user paymentMethod address cartItems =
     (if a_line1 address = [] \<or> a_city address = [] \<or> a_state address = [] \<or> a_pinCode address = []
      then (db, incomplete_address)
      else (case user of
              None \<Rightarrow> (db, error_toast not_authenticated)
            | Some user_id \<Rightarrow>
                (case checkout_loop g user_id paymentMethod address cartItems 0
                        (first_occurrences (map c_seller_id cartItems)) db of
                   (db', None) \<Rightarrow> (db', order_placed)
                 | (db', Some e) \<Rightarrow> (db', error_toast (insert_error e)))))"

section \<open>The words of the specification\<close>

text \<open>"The first populated value among ..., or null if none": the first element of the
  list that is not null.\<close>

definition first_populated :: "'a option list \<Rightarrow> 'a option" where
  "first_populated vs = (case filter (\<lambda>v. v \<noteq> None) vs of [] \<Rightarrow> None | v # rest \<Rightarrow> v)"

text \<open>"The sum of price times quantity over the item snapshot."\<close>

definition items_subtotal :: "OrderItem list \<Rightarrow> rat" where
  "items_subtotal its = sum_list (map (\<lambda>it. i_price it * of_int (i_quantity it)) its)"

text \<open>"For cash-on-delivery orders, prepayment_amount == round(total * 0.20, 2); for
  online-payment orders, prepayment_amount is absent/null."\<close>

definition prepayment_rule :: "Order \<Rightarrow> bool" where
  "prepayment_rule r =
     (o_prepayment_amount r
        = (case o_payment_method r of cod \<Rightarrow> Some (round2 (o_total r * 0.2)) | online \<Rightarrow> None))"


text \<open>
  The transition graph of the order status (section 3 of the specification):
  created, pending_verification, seller_contacted, then seller_accepted or
  seller_rejected; seller_accepted, buyer_contacted, then buyer_confirmed or
  buyer_rejected; buyer_confirmed, confirmed, out_for_delivery, delivered, completed;
  seller_rejected and buyer_rejected may end at rejected. A status is reachable from
  another when a path of the graph leads there; the graph has 13 nodes, so 12 steps
  reach whatever can be reached.
\<close>

fun status_successors :: "order_status \<Rightarrow> order_status list" where
  "status_successors created = [pending_verification]"
| "status_successors pending_verification = [seller_contacted]"
| "status_successors seller_contacted = [seller_accepted, seller_rejected]"
| "status_successors seller_accepted = [buyer_contacted]"
| "status_successors seller_rejected = [rejected]"
| "status_successors buyer_contacted = [buyer_confirmed, buyer_rejected]"
| "status_successors buyer_confirmed = [confirmed]"
| "status_successors buyer_rejected = [rejected]"
| "status_successors confirmed = [out_for_delivery]"
| "status_successors out_for_delivery = [delivered]"
| "status_successors delivered = [completed]"
| "status_successors completed = []"
| "status_successors rejected = []"

fun reached_within :: "nat \<Rightarrow> order_status list \<Rightarrow> order_status list" where
  "reached_within 0 xs = xs"
| "reached_within (Suc n) xs = reached_within n (remdups (xs @ concat (map status_successors xs)))"

definition status_reachable :: "order_status \<Rightarrow> order_status \<Rightarrow> bool" where
  "status_reachable s t = (t \<in> set (reached_within 12 [s]))"

section \<open>Example data\<close>

text \<open>
  A small database on which the theorems below are instantiated: three orders, the first
  with three recorded transitions; a customer (alice), a second customer (dave), two
  seller accounts (bob, erin) and an admin (carol). The token \<open>tok-ghost\<close> is a valid
  token of a user who has no row in \<^verbatim>\<open>profiles\<close>.
\<close>

definition ex_address :: Address where
  "ex_address = \<lparr> a_line1 = ''1 Kiln Road'', a_line2 = [], a_city = ''Pune'', a_state = ''MH'',
                   a_pinCode = ''411001'' \<rparr>"

definition ex_items :: "OrderItem list" where
  "ex_items = [\<lparr> i_product_id = ''p1'', i_title = ''Red brick'', i_quantity = 100, i_price = 5,
                 i_unit = ''piece'' \<rparr>]"

definition ex_order :: Order where
  "ex_order = \<lparr> o_id = ''o1'', o_customer_id = ''alice'', o_seller_id = ''s1'', o_items = ex_items,
      o_subtotal = 500, o_delivery_charges = Some 50, o_total = 550, o_payment_method = cod,
      o_payment_status = pending, o_prepayment_amount = Some 110, o_status = seller_accepted,
      o_delivery_address = ex_address, o_verified_by_admin_id = None, o_seller_response = None,
      o_buyer_response = None, o_reject_reason = None, o_contact_attempts = Some 0,
      o_created_at = 10, o_updated_at = 50 \<rparr>"

definition ex_history :: "OrderStateHistory list" where
  "ex_history =
     [\<lparr> h_id = ''h1'', h_order_id = ''o1'', h_status = pending_verification,
        h_changed_by = Some ''alice'', h_note = None, h_created_at = 10 \<rparr>,
      \<lparr> h_id = ''h2'', h_order_id = ''o2'', h_status = pending_verification,
        h_changed_by = Some ''dave'', h_note = None, h_created_at = 20 \<rparr>,
      \<lparr> h_id = ''h3'', h_order_id = ''o1'', h_status = seller_contacted,
        h_changed_by = Some ''carol'', h_note = None, h_created_at = 40 \<rparr>,
      \<lparr> h_id = ''h4'', h_order_id = ''o1'', h_status = seller_accepted,
        h_changed_by = Some ''carol'', h_note = None, h_created_at = 50 \<rparr>]"

definition ex_db :: database where
  "ex_db = \<lparr>
     profiles =
       [\<lparr> p_id = ''alice'', p_role = ''customer'', p_phone = ''100'', p_name = ''Alice'' \<rparr>,
        \<lparr> p_id = ''bob'', p_role = ''seller'', p_phone = ''101'', p_name = ''Bob'' \<rparr>,
        \<lparr> p_id = ''carol'', p_role = ''admin'', p_phone = ''102'', p_name = ''Carol'' \<rparr>,
        \<lparr> p_id = ''dave'', p_role = ''customer'', p_phone = ''103'', p_name = ''Dave'' \<rparr>,
        \<lparr> p_id = ''erin'', p_role = ''seller'', p_phone = ''104'', p_name = ''Erin'' \<rparr>],
     sellers =
       [\<lparr> s_id = ''s1'', s_user_id = ''bob'', s_shop_name = ''Bob Bricks'', s_status = ''active'' \<rparr>,
        \<lparr> s_id = ''s2'', s_user_id = ''erin'', s_shop_name = ''Erin Cement'', s_status = ''active'' \<rparr>],
     orders =
       [ex_order,
        ex_order \<lparr> o_id := ''o2'', o_customer_id := ''dave'', o_status := delivered,
                   o_created_at := 20, o_updated_at := 20 \<rparr>,
        ex_order \<lparr> o_id := ''o3'', o_customer_id := ''dave'', o_seller_id := ''s2'',
                   o_status := seller_contacted, o_created_at := 30, o_updated_at := 30 \<rparr>],
     orderStateHistory = ex_history \<rparr>"

definition ex_jwt :: jwt_verify where
  "ex_jwt token =
     (if token = ''tok-alice'' then Some (''alice'', ''customer'')
      else if token = ''tok-bob'' then Some (''bob'', ''seller'')
      else if token = ''tok-carol'' then Some (''carol'', ''admin'')
      else if token = ''tok-ghost'' then Some (''ghost'', ''admin'')
      else None)"

definition ex_drawn :: drawn where
  "ex_drawn = \<lparr> order_uuid = ''o9'', history_uuid = ''h9'', now_at = 60 \<rparr>"

text \<open>A body with no key at all.\<close>

definition empty_body :: OrderBody where
  "empty_body = \<lparr> b_customerId = None, b_sellerId = None, b_items = None, b_subtotal = None,
     b_deliveryCharges = None, b_total = None, b_paymentMethod = None, b_paymentStatus = None,
     b_prepaymentAmount = None, b_status = None, b_deliveryAddress = None,
     b_verifiedByAdminId = None, b_sellerResponse = None, b_buyerResponse = None,
     b_rejectReason = None, b_contactAttempts = None, b_note = None \<rparr>"

text \<open>The body of a POST /api/orders whose amounts agree with its items (100 bricks at
  5.00, delivery 50.00), and a cart with items of two sellers.\<close>

definition ex_body :: OrderBody where
  "ex_body = empty_body \<lparr> b_sellerId := Some ''s1'', b_items := Some ex_items,
     b_subtotal := Some 500, b_deliveryCharges := Some (Some 50), b_total := Some 550,
     b_paymentMethod := Some cod, b_deliveryAddress := Some ex_address \<rparr>"

definition ex_cart :: "CartItem list" where
  "ex_cart =
     [\<lparr> c_id = ''p1'', c_title = ''Red brick'', c_price = 5, c_unit = ''piece'', c_quantity = 100,
        c_seller_id = ''s1'' \<rparr>,
      \<lparr> c_id = ''p7'', c_title = ''Cement'', c_price = 99.99, c_unit = ''bag'', c_quantity = 1,
        c_seller_id = ''s2'' \<rparr>,
      \<lparr> c_id = ''p2'', c_title = ''Sand'', c_price = 12.5, c_unit = ''bag'', c_quantity = 4,
        c_seller_id = ''s1'' \<rparr>]"

definition ex_gen :: "nat \<Rightarrow> drawn" where
  "ex_gen k = (if k = 0 then \<lparr> order_uuid = ''o7'', history_uuid = ''h7'', now_at = 70 \<rparr>
               else \<lparr> order_uuid = ''o8'', history_uuid = ''h8'', now_at = 71 \<rparr>)"

section \<open>Lemmas\<close>

subsection \<open>Queries\<close>

lemma length_order_by_desc: "length (order_by_desc f xs) = length xs"
  by (simp add: order_by_desc_def)

lemma mset_order_by_desc: "mset (order_by_desc f xs) = mset xs"
  by (simp add: order_by_desc_def)


lemma sorted_order_by_desc: "sorted_wrt (\<lambda>a b. f b \<le> f a) (order_by_desc f xs)"
proof -
  have "sorted (map f (sort_key f xs))" by (rule sorted_sort_key)
  then have "sorted_wrt (\<lambda>a b. f a \<le> f b) (sort_key f xs)"
    by (simp add: sorted_wrt_map)
  then show ?thesis
    by (simp add: order_by_desc_def sorted_wrt_rev)
qed



subsection \<open>Decimals\<close>

lemma two_decimals_iff: "two_decimals x \<longleftrightarrow> (\<exists>n::int. x * 100 = of_int n)"
  unfolding two_decimals_def of_int_floor_cancel ..

lemma round_half_away_of_int: "round_half_away (of_int n) = n"
proof -
  have "\<lfloor>(of_int n :: rat) + 1 / 2\<rfloor> = n" by linarith
  moreover have "\<lfloor>- (of_int n :: rat) + 1 / 2\<rfloor> = - n" by linarith
  ultimately show ?thesis by (simp add: round_half_away_def)
qed

lemma round2_two_decimals: "two_decimals x \<Longrightarrow> round2 x = x"
proof -
  assume "two_decimals x"
  then obtain n :: int where n: "x * 100 = of_int n" by (auto simp: two_decimals_iff)
  then have "round2 x = of_int n / 100" by (simp add: round2_def round_half_away_of_int)
  also from n have "\<dots> = x" by simp
  finally show ?thesis .
qed



lemma two_decimals_of_int: "two_decimals (of_int k)"
proof -
  have "(of_int k :: rat) * 100 = of_int (k * 100)" by simp
  then show ?thesis unfolding two_decimals_iff ..
qed

lemma two_decimals_50: "two_decimals 50"
  using two_decimals_of_int[of 50] by simp

lemma floor_half: "\<lfloor>(1::rat) / 2\<rfloor> = 0"
  by linarith

lemma round_half_away_minus: "round_half_away (- x) = - round_half_away x"
  by (cases "x = 0") (auto simp: round_half_away_def floor_half)

lemma round_half_away_fifth_nonneg:
  assumes "0 \<le> y"
  shows "round_half_away (of_int (round_half_away y) / 5) = round_half_away (y / 5)"
proof -
  define n where "n = \<lfloor>y + 1 / 2\<rfloor>"
  define m where "m = \<lfloor>y / 5 + 1 / 2\<rfloor>"
  have n1: "of_int n \<le> y + 1 / 2" and n2: "y + 1 / 2 < of_int n + 1"
    unfolding n_def by linarith+
  have m1: "of_int m \<le> y / 5 + 1 / 2" and m2: "y / 5 + 1 / 2 < of_int m + 1"
    unfolding m_def by linarith+
  from n2 m1 have "(of_int (5 * m - 3) :: rat) < of_int n" by simp
  then have lo: "5 * m - 3 < n" by (simp only: of_int_less_iff)
  from n1 m2 have "(of_int n :: rat) < of_int (5 * m + 3)" by simp
  then have hi: "n < 5 * m + 3" by (simp only: of_int_less_iff)
  have "\<lfloor>(of_int n :: rat) / 5 + 1 / 2\<rfloor> = m"
  proof (rule floor_unique)
    from lo have "5 * m - 2 \<le> n" by simp
    then have "(of_int (5 * m - 2) :: rat) \<le> of_int n" by (simp only: of_int_le_iff)
    then show "(of_int m :: rat) \<le> of_int n / 5 + 1 / 2" by simp
    from hi have "n \<le> 5 * m + 2" by simp
    then have "(of_int n :: rat) \<le> of_int (5 * m + 2)" by (simp only: of_int_le_iff)
    then show "(of_int n :: rat) / 5 + 1 / 2 < of_int m + 1" by simp
  qed
  moreover from assms have "0 \<le> n" unfolding n_def by simp
  ultimately show ?thesis
    using assms by (simp add: round_half_away_def n_def m_def)
qed

lemma round_half_away_fifth:
  "round_half_away (of_int (round_half_away y) / 5) = round_half_away (y / 5)"
proof (cases "0 \<le> y")
  case True
  then show ?thesis by (rule round_half_away_fifth_nonneg)
next
  case False
  then have "0 \<le> - y" by simp
  from round_half_away_fifth_nonneg[OF this]
  have "round_half_away (- (of_int (round_half_away y) / 5)) = round_half_away (- (y / 5))"
    by (simp add: round_half_away_minus)
  then show ?thesis by (simp only: round_half_away_minus neg_equal_iff_equal)
qed

lemma round2_fifth: "round2 (round2 t / 5) = round2 (t / 5)"
proof -
  have "round2 t / 5 * 100 = of_int (round_half_away (t * 100)) / 5"
    by (simp add: round2_def)
  moreover have "t / 5 * 100 = (t * 100) / 5" by simp
  ultimately show ?thesis
    unfolding round2_def by (simp only: round_half_away_fifth)
qed




lemma numeric_10_2_Some: "numeric_10_2 x = Some y \<Longrightarrow> y = round2 x"
  by (auto simp: numeric_10_2_def split: if_splits)

lemma numeric_10_2_null_Some: "numeric_10_2_null v = Some w \<Longrightarrow> w = map_option round2 v"
  by (cases v) (auto simp: numeric_10_2_null_def dest: numeric_10_2_Some)

lemma the_numeric_10_2: "numeric_10_2 x \<noteq> None \<Longrightarrow> the (numeric_10_2 x) = round2 x"
  by (auto dest: numeric_10_2_Some)

lemma the_numeric_10_2_null:
  "numeric_10_2_null v \<noteq> None \<Longrightarrow> the (numeric_10_2_null v) = map_option round2 v"
  by (auto dest: numeric_10_2_null_Some)

subsection \<open>The storage writes\<close>

lemma o_id_orders_set: "o_id (orders_set v now r) = o_id r"
  by (simp add: orders_set_def)

lemma o_status_orders_set: "o_status (orders_set v now r) = or_default (b_status v) (o_status r)"
  by (simp add: orders_set_def)

lemma find_map_orders_set:
  "find (\<lambda>r. o_id r = i) (map (\<lambda>r. if o_id r = i then orders_set v now r else r) xs)
     = map_option (orders_set v now) (find (\<lambda>r. o_id r = i) xs)"
  by (induction xs) (simp_all add: o_id_orders_set)

lemma map_o_id_orders_set:
  "map o_id (map (\<lambda>r. if o_id r = i then orders_set v now r else r) xs) = map o_id xs"
  by (induction xs) (simp_all add: o_id_orders_set)

lemma updateOrder_found:
  assumes "getOrder db i = Some order" and "orders_set_error db v = None"
  shows "updateOrder db g i v
           = Inr (db \<lparr> orders := map (\<lambda>r. if o_id r = i then orders_set v (now_at g) r else r) (orders db) \<rparr>,
                  Some (orders_set v (now_at g) order))"
  using assms by (simp add: updateOrder_def getOrder_def find_map_orders_set)

lemma updateOrder_error:
  assumes "getOrder db i = Some order" and "orders_set_error db v = Some e"
  shows "updateOrder db g i v = Inl e"
  using assms by (simp add: updateOrder_def getOrder_def)

lemma createOrderStateHistory_Inr:
  assumes "createOrderStateHistory db g d = Inr (db2, row)"
  shows "db2 = db \<lparr> orderStateHistory := orderStateHistory db @ [row] \<rparr>
       \<and> row = \<lparr> h_id = history_uuid g, h_order_id = n_orderId d, h_status = n_status d,
                 h_changed_by = n_changedBy d, h_note = n_note d, h_created_at = now_at g \<rparr>"
proof -
  from assms have "history_insert db (history_uuid g) (now_at g) d = Inr (db2, row)"
    by (simp add: createOrderStateHistory_def split: if_splits)
  then show ?thesis
    by (auto simp: history_insert_def Let_def split: if_splits)
qed

lemma getOrder_exists: "getOrder db i = Some order \<Longrightarrow> order_exists db i \<and> o_id order = i"
  by (auto simp: getOrder_def order_exists_def find_Some_iff)

lemma orders_new_row_Inr:
  assumes "orders_new_row db i now v = Inr order"
  shows "o_id order = i
       \<and> b_customerId v = Some (o_customer_id order)
       \<and> b_sellerId v = Some (o_seller_id order)
       \<and> b_items v = Some (o_items order)
       \<and> map_option round2 (b_subtotal v) = Some (o_subtotal order)
       \<and> o_delivery_charges order = map_option round2 (or_default (b_deliveryCharges v) (Some 0))
       \<and> map_option round2 (b_total v) = Some (o_total order)
       \<and> b_paymentMethod v = Some (o_payment_method order)
       \<and> o_payment_status order = or_default (b_paymentStatus v) pending
       \<and> o_prepayment_amount order = map_option round2 (or_default (b_prepaymentAmount v) None)
       \<and> o_status order = or_default (b_status v) created
       \<and> b_deliveryAddress v = Some (o_delivery_address order)
       \<and> o_verified_by_admin_id order = or_default (b_verifiedByAdminId v) None
       \<and> o_seller_response order = or_default (b_sellerResponse v) None
       \<and> o_buyer_response order = or_default (b_buyerResponse v) None
       \<and> o_reject_reason order = or_default (b_rejectReason v) None
       \<and> o_contact_attempts order = map_option floor (or_default (b_contactAttempts v) (Some 0))
       \<and> o_created_at order = now
       \<and> o_updated_at order = now
       \<and> profile_exists db (o_customer_id order) \<and> seller_exists db (o_seller_id order)"
proof -
  from assms have nn: "b_customerId v \<noteq> None" "b_sellerId v \<noteq> None" "b_items v \<noteq> None"
      "b_subtotal v \<noteq> None" "b_total v \<noteq> None" "b_paymentMethod v \<noteq> None"
      "b_deliveryAddress v \<noteq> None"
    by (auto simp: orders_new_row_def split: if_splits)
  from assms have fk: "\<not> orders_references_missing db v"
    by (auto simp: orders_new_row_def split: if_splits)
  with nn have ex: "profile_exists db (the (b_customerId v))" "seller_exists db (the (b_sellerId v))"
    by (auto simp: orders_references_missing_def)
  from assms have "order = \<lparr>
        o_id = i,
        o_customer_id = the (b_customerId v),
        o_seller_id = the (b_sellerId v),
        o_items = the (b_items v),
        o_subtotal = round2 (the (b_subtotal v)),
        o_delivery_charges = map_option round2 (or_default (b_deliveryCharges v) (Some 0)),
        o_total = round2 (the (b_total v)),
        o_payment_method = the (b_paymentMethod v),
        o_payment_status = or_default (b_paymentStatus v) pending,
        o_prepayment_amount = map_option round2 (or_default (b_prepaymentAmount v) None),
        o_status = or_default (b_status v) created,
        o_delivery_address = the (b_deliveryAddress v),
        o_verified_by_admin_id = or_default (b_verifiedByAdminId v) None,
        o_seller_response = or_default (b_sellerResponse v) None,
        o_buyer_response = or_default (b_buyerResponse v) None,
        o_reject_reason = or_default (b_rejectReason v) None,
        o_contact_attempts = map_option floor (or_default (b_contactAttempts v) (Some 0)),
        o_created_at = now,
        o_updated_at = now \<rparr>"
    by (simp add: orders_new_row_def split: if_splits)
  with nn ex show ?thesis
    by auto
qed

lemma createOrder_Inr:
  assumes "createOrder db g data = Inr (db1, order)"
  shows "db1 = db \<lparr> orders := orders db @ [order] \<rparr>
       \<and> orders_new_row db (order_uuid g) (now_at g) data = Inr order"
  using assms by (auto simp: createOrder_def split: sum.splits)

subsection \<open>The trigger\<close>

lemma track_insert_row:
  assumes "track_order_state_change op OLD NEW auth_uid g db = Inr db'"
      and "op = INSERT \<or> map_option o_status OLD \<noteq> Some (o_status NEW)"
  shows "db' = db \<lparr> orderStateHistory := orderStateHistory db @
           [\<lparr> h_id = history_uuid g, h_order_id = o_id NEW, h_status = o_status NEW,
              h_changed_by = auth_uid,
              h_note = first_populated [o_reject_reason NEW, o_seller_response NEW, o_buyer_response NEW],
              h_created_at = now_at g \<rparr>] \<rparr>"
  using assms
  by (auto simp: track_order_state_change_def history_insert_def Let_def first_populated_def
      split: if_splits option.splits sum.splits)

lemma track_unchanged:
  assumes "op = UPDATE" and "map_option o_status OLD = Some (o_status NEW)"
  shows "track_order_state_change op OLD NEW auth_uid g db = Inr db"
  using assms by (simp add: track_order_state_change_def)

lemma update_orders_Inr:
  assumes "update_orders db auth_uid g i v = Inr db'"
  shows "case find (\<lambda>r. o_id r = i) (orders db) of
           None \<Rightarrow> db' = db
         | Some OLD \<Rightarrow>
             orders db' = map (\<lambda>r. if o_id r = i then orders_set v (now_at g) r else r) (orders db)
             \<and> profiles db' = profiles db \<and> sellers db' = sellers db
             \<and> orderStateHistory db' =
                 (if o_status (orders_set v (now_at g) OLD) = o_status OLD then orderStateHistory db
                  else orderStateHistory db @
                    [\<lparr> h_id = history_uuid g, h_order_id = i,
                       h_status = o_status (orders_set v (now_at g) OLD),
                       h_changed_by = auth_uid,
                       h_note = first_populated [o_reject_reason (orders_set v (now_at g) OLD),
                                  o_seller_response (orders_set v (now_at g) OLD),
                                  o_buyer_response (orders_set v (now_at g) OLD)],
                       h_created_at = now_at g \<rparr>])"
proof (cases "find (\<lambda>r. o_id r = i) (orders db)")
  case None
  with assms show ?thesis by (simp add: update_orders_def)
next
  case (Some OLD)
  then have oid: "o_id OLD = i" by (auto simp: find_Some_iff)
  from assms Some have ok: "orders_set_error db v = None"
    by (auto simp: update_orders_def split: option.splits)
  let ?db1 = "db \<lparr> orders := map (\<lambda>r. if o_id r = i then orders_set v (now_at g) r else r) (orders db) \<rparr>"
  from assms Some ok have tr:
    "track_order_state_change UPDATE (Some OLD) (orders_set v (now_at g) OLD) auth_uid g ?db1 = Inr db'"
    by (simp add: update_orders_def)
  show ?thesis
  proof (cases "o_status (orders_set v (now_at g) OLD) = o_status OLD")
    case True
    with tr track_unchanged[of UPDATE "Some OLD" "orders_set v (now_at g) OLD" auth_uid g ?db1]
    have "db' = ?db1" by simp
    with Some True show ?thesis by simp
  next
    case False
    with track_insert_row[OF tr] have "db' = ?db1 \<lparr> orderStateHistory := orderStateHistory ?db1 @
           [\<lparr> h_id = history_uuid g, h_order_id = o_id (orders_set v (now_at g) OLD),
              h_status = o_status (orders_set v (now_at g) OLD),
              h_changed_by = auth_uid,
              h_note = first_populated [o_reject_reason (orders_set v (now_at g) OLD),
                         o_seller_response (orders_set v (now_at g) OLD),
                         o_buyer_response (orders_set v (now_at g) OLD)],
              h_created_at = now_at g \<rparr>] \<rparr>"
      by auto
    with Some False oid show ?thesis by (simp add: o_id_orders_set)
  qed
qed

subsection \<open>PATCH /api/orders/:id\<close>

text \<open>What PATCH /api/orders/:id does once the caller is authenticated, the order was
  found and the update went through.\<close>

lemma patch_found:
  assumes auth: "authMiddleware jwt auth_token = Inr (userId, userRole)"
      and found: "getOrder db i = Some order"
      and ok: "orders_set_error db v = None"
  shows "patch_api_orders_id jwt db g auth_token i v =
     (let db1 = db \<lparr> orders := map (\<lambda>r. if o_id r = i then orders_set v (now_at g) r else r) (orders db) \<rparr>;
          updated = orders_set v (now_at g) order
      in if b_status v \<noteq> None \<and> b_status v \<noteq> Some (o_status order) then
           if (case b_note v of None \<Rightarrow> False | Some t \<Rightarrow> \<not> text_value t) then
             (db1, res_status_json 500 (error_message (db_exception data_exception)))
           else if profile_exists db userId then
             (db1 \<lparr> orderStateHistory := orderStateHistory db @
                       [\<lparr> h_id = history_uuid g, h_order_id = i, h_status = the (b_status v),
                          h_changed_by = Some userId, h_note = b_note v, h_created_at = now_at g \<rparr>] \<rparr>,
              res_json (Some updated))
           else (db1, res_status_json 500 (error_message (db_exception foreign_key_violation)))
         else (db1, res_json (Some updated)))"
proof -
  from getOrder_exists[OF found] have ex: "order_exists db i" and oid: "o_id order = i" by simp_all
  have ex1: "order_exists (db \<lparr> orders := map (\<lambda>r. if o_id r = i then orders_set v (now_at g) r else r) (orders db) \<rparr>) i"
    using ex by (simp add: order_exists_def map_o_id_orders_set del: map_map)
  show ?thesis
    using auth found updateOrder_found[OF found ok, of g] oid ex1
    by (simp add: patch_api_orders_id_def createOrderStateHistory_def history_insert_def
        Let_def profile_exists_def)
qed

lemma patch_refused:
  assumes "authMiddleware jwt auth_token = Inl x \<or> getOrder db i = None
           \<or> (\<exists>e. updateOrder db g i v = Inl e)"
  shows "fst (patch_api_orders_id jwt db g auth_token i v) = db"
  using assms
  by (auto simp: patch_api_orders_id_def split: sum.splits option.splits prod.splits)

lemma patch_success_found:
  assumes "patch_api_orders_id jwt db g auth_token i v = (db', res_json updated)"
  shows "\<exists>userId userRole order. authMiddleware jwt auth_token = Inr (userId, userRole)
           \<and> getOrder db i = Some order \<and> orders_set_error db v = None"
proof -
  from assms obtain userId userRole where auth: "authMiddleware jwt auth_token = Inr (userId, userRole)"
    by (cases "authMiddleware jwt auth_token") (auto simp: patch_api_orders_id_def)
  from assms auth obtain order where found: "getOrder db i = Some order"
    by (cases "getOrder db i") (auto simp: patch_api_orders_id_def)
  have "orders_set_error db v = None"
  proof (cases "orders_set_error db v")
    case (Some e)
    from updateOrder_error[OF found Some, of g] assms auth found show ?thesis
      by (simp add: patch_api_orders_id_def)
  qed simp
  with auth found show ?thesis by blast
qed

lemma status_only_body_accepted:
  "orders_set_error db (empty_body \<lparr> b_status := Some t, b_note := n \<rparr>) = None"
  by (simp add: orders_set_error_def orders_values_refused_def orders_decimals_overflow_def
      orders_references_missing_def empty_body_def)

text \<open>Values that the database refuses. A number out of the range of INTEGER fails the
  update, and nothing changes. A note that holds U+0000 fails the insert of the history
  row, after the update has gone through.\<close>

lemma patch_values_refused:
  "patch_api_orders_id ex_jwt ex_db ex_drawn (Some ''tok-carol'') ''o2''
       (empty_body \<lparr> b_status := Some created, b_contactAttempts := Some (Some 2147483648) \<rparr>)
     = (ex_db, res_status_json 500 (error_message (db_exception data_exception)))
   \<and> snd (patch_api_orders_id ex_jwt ex_db ex_drawn (Some ''tok-carol'') ''o2''
            (empty_body \<lparr> b_status := Some created, b_note := Some [CHR ''a'', CHR 0x00] \<rparr>))
     = res_status_json 500 (error_message (db_exception data_exception))
   \<and> map_option o_status
       (getOrder (fst (patch_api_orders_id ex_jwt ex_db ex_drawn (Some ''tok-carol'') ''o2''
            (empty_body \<lparr> b_status := Some created, b_note := Some [CHR ''a'', CHR 0x00] \<rparr>))) ''o2'')
     = Some created
   \<and> orderStateHistory (fst (patch_api_orders_id ex_jwt ex_db ex_drawn (Some ''tok-carol'') ''o2''
            (empty_body \<lparr> b_status := Some created, b_note := Some [CHR ''a'', CHR 0x00] \<rparr>)))
     = orderStateHistory ex_db"
  by code_simp

subsection \<open>POST /api/orders\<close>

lemma post_success:
  assumes "post_api_orders jwt db g auth_token body = (db', res_json order)"
  shows "\<exists>userId userRole. authMiddleware jwt auth_token = Inr (userId, userRole)
           \<and> orders_new_row db (order_uuid g) (now_at g)
                (body \<lparr> b_customerId := Some userId, b_note := None \<rparr>) = Inr order
           \<and> db' = db \<lparr> orders := orders db @ [order],
                         orderStateHistory := orderStateHistory db @
               [\<lparr> h_id = history_uuid g, h_order_id = o_id order, h_status = o_status order,
                  h_changed_by = Some userId, h_note = None, h_created_at = now_at g \<rparr>] \<rparr>"
proof -
  from assms obtain userId userRole where auth: "authMiddleware jwt auth_token = Inr (userId, userRole)"
    by (cases "authMiddleware jwt auth_token") (auto simp: post_api_orders_def)
  let ?v = "body \<lparr> b_customerId := Some userId \<rparr>"
  from assms auth obtain data where p: "insertOrderSchema_parse ?v = Some data"
    by (cases "insertOrderSchema_parse ?v") (auto simp: post_api_orders_def)
  then have data: "data = body \<lparr> b_customerId := Some userId, b_note := None \<rparr>"
    by (auto simp: insertOrderSchema_parse_def split: if_splits)
  from assms auth p obtain db1 where c: "createOrder db g data = Inr (db1, order)"
    and h: "\<exists>row. createOrderStateHistory db1 g
                     \<lparr> n_orderId = o_id order, n_status = o_status order,
                       n_changedBy = Some userId, n_note = None \<rparr> = Inr (db', row)"
    by (auto simp: post_api_orders_def split: sum.splits)
  from h obtain row where h': "createOrderStateHistory db1 g
                     \<lparr> n_orderId = o_id order, n_status = o_status order,
                       n_changedBy = Some userId, n_note = None \<rparr> = Inr (db', row)" ..
  from createOrder_Inr[OF c] createOrderStateHistory_Inr[OF h'] auth data show ?thesis
    by auto
qed

subsection \<open>The checkout page\<close>


text \<open>The row that one insert of the checkout page adds, before any assumption on the
  prices.\<close>

lemma insert_checkout_row:
  assumes ins: "insert_into_orders db (Some u) g (orderData u sid pm addr items) = Inr db'"
  shows "\<exists>NEW. orders db' = orders db @ [NEW]
           \<and> o_customer_id NEW = u \<and> o_seller_id NEW = sid
           \<and> o_payment_method NEW = pm \<and> o_status NEW = pending_verification
           \<and> o_items NEW = map (\<lambda>item. \<lparr> i_product_id = c_id item, i_title = c_title item,
                                 i_quantity = c_quantity item, i_price = c_price item,
                                 i_unit = c_unit item \<rparr>) items
           \<and> o_subtotal NEW = round2 (cart_subtotal items)
           \<and> o_total NEW = round2 (cart_subtotal items + 50)
           \<and> o_delivery_charges NEW = Some 50
           \<and> o_prepayment_amount NEW
               = (if pm = cod then Some (round2 ((cart_subtotal items + 50) * 0.2)) else None)
           \<and> orderStateHistory db' = orderStateHistory db @
               [\<lparr> h_id = history_uuid g, h_order_id = o_id NEW, h_status = pending_verification,
                  h_changed_by = Some u, h_note = None, h_created_at = now_at g \<rparr>]"
proof -
  let ?v = "orderData u sid pm addr items"
  from ins obtain NEW where new: "orders_new_row db (order_uuid g) (now_at g) ?v = Inr NEW"
    and tr: "track_order_state_change INSERT None NEW (Some u) g (db \<lparr> orders := orders db @ [NEW] \<rparr>) = Inr db'"
    by (auto simp: insert_into_orders_def orderData_def Let_def split: sum.splits if_splits)
  from orders_new_row_Inr[OF new]
  have f: "o_customer_id NEW = u" "o_seller_id NEW = sid" "o_payment_method NEW = pm"
      "o_status NEW = pending_verification"
      "o_items NEW = map (\<lambda>item. \<lparr> i_product_id = c_id item, i_title = c_title item,
                                 i_quantity = c_quantity item, i_price = c_price item,
                                 i_unit = c_unit item \<rparr>) items"
      "o_subtotal NEW = round2 (cart_subtotal items)"
      "o_total NEW = round2 (cart_subtotal items + 50)"
      "o_delivery_charges NEW = Some (round2 50)"
      "o_prepayment_amount NEW = (if pm = cod then Some (round2 ((cart_subtotal items + 50) * 0.2)) else None)"
      "o_reject_reason NEW = None" "o_seller_response NEW = None" "o_buyer_response NEW = None"
    by (auto simp: orderData_def Let_def or_default_def)
  from track_insert_row[OF tr] f
  have "db' = db \<lparr> orders := orders db @ [NEW], orderStateHistory := orderStateHistory db @
           [\<lparr> h_id = history_uuid g, h_order_id = o_id NEW, h_status = pending_verification,
              h_changed_by = Some u, h_note = None, h_created_at = now_at g \<rparr>] \<rparr>"
    by (simp add: first_populated_def)
  with f show ?thesis by (simp add: round2_two_decimals two_decimals_50)
qed

lemma insert_checkout_prepayment:
  assumes "insert_into_orders db (Some u) g (orderData u sid pm addr items) = Inr db'"
  shows "\<exists>NEW. orders db' = orders db @ [NEW] \<and> o_seller_id NEW = sid
           \<and> o_payment_method NEW = pm \<and> prepayment_rule NEW"
proof -
  from insert_checkout_row[OF assms] obtain NEW where
    n: "orders db' = orders db @ [NEW]" "o_seller_id NEW = sid" "o_payment_method NEW = pm"
       "o_total NEW = round2 (cart_subtotal items + 50)"
       "o_prepayment_amount NEW
               = (if pm = cod then Some (round2 ((cart_subtotal items + 50) * 0.2)) else None)"
    by blast
  have "prepayment_rule NEW"
    using n(3,4,5) by (cases pm) (simp_all add: prepayment_rule_def round2_fifth)
  with n show ?thesis by blast
qed


text \<open>What holds of the row of every insert holds of every order the loop adds.\<close>

lemma checkout_loop_orders:
  assumes step: "\<And>db k sid db1.
      insert_into_orders db (Some u) (g k) (orderData u sid pm addr (sellerGroup cart sid)) = Inr db1
      \<Longrightarrow> \<exists>NEW. orders db1 = orders db @ [NEW] \<and> o_seller_id NEW = sid \<and> P NEW"
  shows "checkout_loop g u pm addr cart k sids db = (db', res) \<Longrightarrow>
         \<exists>new. orders db' = orders db @ new \<and> (\<forall>r\<in>set new. P r)
           \<and> (res = None \<longrightarrow> map o_seller_id new = sids)"
proof (induction sids arbitrary: db k)
  case Nil
  then show ?case by simp
next
  case (Cons sid rest)
  show ?case
  proof (cases "insert_into_orders db (Some u) (g k) (orderData u sid pm addr (sellerGroup cart sid))")
    case (Inl e)
    with Cons.prems have "db' = db" "res = Some e" by auto
    then show ?thesis by (intro exI[of _ "[]"]) simp
  next
    case (Inr db1)
    from step[OF Inr] obtain NEW where
      n: "orders db1 = orders db @ [NEW]" "o_seller_id NEW = sid" "P NEW"
      by blast
    from Cons.prems Inr have "checkout_loop g u pm addr cart (Suc k) rest db1 = (db', res)"
      by simp
    from Cons.IH[OF this] obtain new where
      r: "orders db' = orders db1 @ new" "\<forall>r\<in>set new. P r"
         "res = None \<longrightarrow> map o_seller_id new = rest"
      by blast
    from n r have A: "orders db' = orders db @ (NEW # new)" by simp
    from n r have B: "\<forall>r\<in>set (NEW # new). P r" by simp
    from n r have C: "res = None \<longrightarrow> map o_seller_id (NEW # new) = sid # rest" by simp
    show ?thesis
      by (insert A B C, rule exI[of _ "NEW # new"], intro conjI, assumption+)
  qed
qed

lemma handleCheckout_orders:
  assumes step: "\<And>u db k sid db1.
      insert_into_orders db (Some u) (g k) (orderData u sid pm addr (sellerGroup cart sid)) = Inr db1
      \<Longrightarrow> \<exists>NEW. orders db1 = orders db @ [NEW] \<and> o_seller_id NEW = sid \<and> P NEW"
      and hc: "handleCheckout g db user pm addr cart = (db', res)"
  shows "\<exists>new. orders db' = orders db @ new \<and> (\<forall>r\<in>set new. P r)
           \<and> (res = order_placed \<longrightarrow> map o_seller_id new = first_occurrences (map c_seller_id cart))"
proof (cases "a_line1 addr = [] \<or> a_city addr = [] \<or> a_state addr = [] \<or> a_pinCode addr = []")
  case True
  with hc have "db' = db" "res = incomplete_address" by (auto simp: handleCheckout_def)
  then show ?thesis by simp
next
  case False
  show ?thesis
  proof (cases user)
    case None
    with hc False have "db' = db" "res \<noteq> order_placed" by (auto simp: handleCheckout_def)
    then show ?thesis by simp
  next
    case (Some u)
    obtain d e where l: "checkout_loop g u pm addr cart 0 (first_occurrences (map c_seller_id cart)) db = (d, e)"
      by (cases "checkout_loop g u pm addr cart 0 (first_occurrences (map c_seller_id cart)) db")
    with hc False Some have "db' = d" and "res = order_placed \<longrightarrow> e = None"
      by (auto simp: handleCheckout_def split: option.splits)
    have "\<exists>new. orders d = orders db @ new \<and> (\<forall>r\<in>set new. P r)
           \<and> (e = None \<longrightarrow> map o_seller_id new = first_occurrences (map c_seller_id cart))"
    proof (rule checkout_loop_orders[OF _ l])
      fix d0 k sid d1
      assume "insert_into_orders d0 (Some u) (g k) (orderData u sid pm addr (sellerGroup cart sid)) = Inr d1"
      then show "\<exists>NEW. orders d1 = orders d0 @ [NEW] \<and> o_seller_id NEW = sid \<and> P NEW"
        by (rule step)
    qed
    with \<open>db' = d\<close> \<open>res = order_placed \<longrightarrow> e = None\<close> show ?thesis by auto
  qed
qed

section \<open>The claims\<close>

subsection \<open>Status updates and their history row\<close>

text \<open>
  Claim C1, as amended. PATCH /api/orders/:id: a request that is answered with success and
  asks for a status other than the stored one has stored that status and appended exactly
  one history row, whose status is the order's new stored status; a request answered with
  success whose status is absent or the stored one appends nothing and leaves the status;
  a request that fails authentication, or whose order is not found, or whose update
  statement fails, changes nothing. On the trigger path an UPDATE of orders that succeeds
  either changes the status and appends exactly one history row with the new stored
  status, or leaves both; being one statement, it changes nothing when it fails.
\<close>

theorem status_update_effects:
  "(\<forall>db' updated. patch_api_orders_id jwt db g auth_token i body = (db', res_json updated) \<longrightarrow>
      (\<exists>order. getOrder db i = Some order
         \<and> (if b_status body \<noteq> None \<and> b_status body \<noteq> Some (o_status order)
            then (\<exists>row. orderStateHistory db' = orderStateHistory db @ [row]
                    \<and> h_order_id row = i
                    \<and> b_status body = Some (h_status row)
                    \<and> map_option o_status (getOrder db' i) = Some (h_status row))
            else orderStateHistory db' = orderStateHistory db
                    \<and> map_option o_status (getOrder db' i) = Some (o_status order))))
   \<and> ((\<exists>x. authMiddleware jwt auth_token = Inl x) \<or> getOrder db i = None
        \<or> (\<exists>e. updateOrder db g i body = Inl e)
       \<longrightarrow> fst (patch_api_orders_id jwt db g auth_token i body) = db)
   \<and> (\<forall>db'. update_orders db auth_uid g i body = Inr db' \<longrightarrow>
        (case getOrder db i of
           None \<Rightarrow> db' = db
         | Some OLD \<Rightarrow>
             if b_status body \<noteq> None \<and> b_status body \<noteq> Some (o_status OLD)
             then (\<exists>row. orderStateHistory db' = orderStateHistory db @ [row]
                     \<and> h_order_id row = i
                     \<and> b_status body = Some (h_status row)
                     \<and> map_option o_status (getOrder db' i) = Some (h_status row))
             else orderStateHistory db' = orderStateHistory db
                     \<and> map_option o_status (getOrder db' i) = Some (o_status OLD)))"
proof (intro conjI allI impI)
  fix db' updated
  assume res: "patch_api_orders_id jwt db g auth_token i body = (db', res_json updated)"
  from patch_success_found[OF res] obtain userId userRole order where
    auth: "authMiddleware jwt auth_token = Inr (userId, userRole)"
    and found: "getOrder db i = Some order" and ok: "orders_set_error db body = None"
    by blast
  have st: "map_option o_status
      (find (\<lambda>r. o_id r = i) (map (\<lambda>r. if o_id r = i then orders_set body (now_at g) r else r) (orders db)))
      = Some (or_default (b_status body) (o_status order))"
    using found by (simp add: find_map_orders_set getOrder_def o_status_orders_set)
  from res patch_found[OF auth found ok, of g] st
  have "if b_status body \<noteq> None \<and> b_status body \<noteq> Some (o_status order)
            then (\<exists>row. orderStateHistory db' = orderStateHistory db @ [row]
                    \<and> h_order_id row = i
                    \<and> b_status body = Some (h_status row)
                    \<and> map_option o_status (getOrder db' i) = Some (h_status row))
            else orderStateHistory db' = orderStateHistory db
                    \<and> map_option o_status (getOrder db' i) = Some (o_status order)"
    by (auto simp: Let_def getOrder_def or_default_def split: if_splits)
  with found show "\<exists>order. getOrder db i = Some order
         \<and> (if b_status body \<noteq> None \<and> b_status body \<noteq> Some (o_status order)
            then (\<exists>row. orderStateHistory db' = orderStateHistory db @ [row]
                    \<and> h_order_id row = i
                    \<and> b_status body = Some (h_status row)
                    \<and> map_option o_status (getOrder db' i) = Some (h_status row))
            else orderStateHistory db' = orderStateHistory db
                    \<and> map_option o_status (getOrder db' i) = Some (o_status order))"
    by blast
next
  assume "(\<exists>x. authMiddleware jwt auth_token = Inl x) \<or> getOrder db i = None
        \<or> (\<exists>e. updateOrder db g i body = Inl e)"
  then show "fst (patch_api_orders_id jwt db g auth_token i body) = db"
    using patch_refused[of jwt auth_token _ db i g body] by blast
next
  fix db'
  assume upd: "update_orders db auth_uid g i body = Inr db'"
  show "case getOrder db i of
           None \<Rightarrow> db' = db
         | Some OLD \<Rightarrow>
             if b_status body \<noteq> None \<and> b_status body \<noteq> Some (o_status OLD)
             then (\<exists>row. orderStateHistory db' = orderStateHistory db @ [row]
                     \<and> h_order_id row = i
                     \<and> b_status body = Some (h_status row)
                     \<and> map_option o_status (getOrder db' i) = Some (h_status row))
             else orderStateHistory db' = orderStateHistory db
                     \<and> map_option o_status (getOrder db' i) = Some (o_status OLD)"
  proof (cases "getOrder db i")
    case None
    with update_orders_Inr[OF upd] show ?thesis by (simp add: getOrder_def)
  next
    case (Some OLD)
    with update_orders_Inr[OF upd] show ?thesis
      by (auto simp: getOrder_def find_map_orders_set o_status_orders_set or_default_def
          split: option.splits)
  qed
qed

theorem status_update_effects_witness:
  "(\<exists>db' updated row.
       patch_api_orders_id ex_jwt ex_db ex_drawn (Some ''tok-carol'') ''o1''
         (empty_body \<lparr> b_status := Some rejected \<rparr>) = (db', res_json updated)
       \<and> orderStateHistory db' = orderStateHistory ex_db @ [row]
       \<and> h_status row = rejected
       \<and> map_option o_status (getOrder db' ''o1'') = Some rejected)
   \<and> getOrder ex_db ''zz'' = None
   \<and> fst (patch_api_orders_id ex_jwt ex_db ex_drawn (Some ''tok-carol'') ''zz''
            (empty_body \<lparr> b_status := Some rejected \<rparr>)) = ex_db
   \<and> (\<exists>db' row.
         update_orders ex_db (Some ''carol'') ex_drawn ''o1''
           (empty_body \<lparr> b_status := Some rejected \<rparr>) = Inr db'
         \<and> orderStateHistory db' = orderStateHistory ex_db @ [row]
         \<and> h_status row = rejected
         \<and> map_option o_status (getOrder db' ''o1'') = Some rejected)"
proof -
  let ?b = "empty_body \<lparr> b_status := Some rejected \<rparr>"
  let ?p = "patch_api_orders_id ex_jwt ex_db ex_drawn (Some ''tok-carol'') ''o1'' ?b"
  let ?u = "ex_order \<lparr> o_status := rejected, o_updated_at := 60 \<rparr>"
  note inst = status_update_effects[of ex_jwt ex_db ex_drawn _ _ ?b "Some ''carol''"]
  have b: "b_status ?b = Some rejected" by (simp add: empty_body_def)
  have g: "getOrder ex_db ''o1'' = Some ex_order" by code_simp
  have st: "o_status ex_order = seller_accepted" by (simp add: ex_order_def)
  have s: "snd ?p = res_json (Some ?u)"
    by code_simp
  have e: "?p = (fst ?p, res_json (Some ?u))"
    by (simp add: s[symmetric])
  from inst[of "Some ''tok-carol''" "''o1''", THEN conjunct1, rule_format, OF e]
  obtain order where o: "getOrder ex_db ''o1'' = Some order"
    and c: "if b_status ?b \<noteq> None \<and> b_status ?b \<noteq> Some (o_status order)
            then (\<exists>row. orderStateHistory (fst ?p) = orderStateHistory ex_db @ [row]
                    \<and> h_order_id row = ''o1''
                    \<and> b_status ?b = Some (h_status row)
                    \<and> map_option o_status (getOrder (fst ?p) ''o1'') = Some (h_status row))
            else orderStateHistory (fst ?p) = orderStateHistory ex_db
                    \<and> map_option o_status (getOrder (fst ?p) ''o1'') = Some (o_status order)"
    by blast
  from o g have "order = ex_order" by simp
  with c b st obtain row where
    "orderStateHistory (fst ?p) = orderStateHistory ex_db @ [row]"
    "h_status row = rejected"
    "map_option o_status (getOrder (fst ?p) ''o1'') = Some rejected"
    by auto
  with e have r1: "\<exists>db' updated row. ?p = (db', res_json updated)
       \<and> orderStateHistory db' = orderStateHistory ex_db @ [row]
       \<and> h_status row = rejected
       \<and> map_option o_status (getOrder db' ''o1'') = Some rejected"
    by blast
  have z: "getOrder ex_db ''zz'' = None" by code_simp
  from inst[of "Some ''tok-carol''" "''zz''", THEN conjunct2, THEN conjunct1] z
  have r2: "fst (patch_api_orders_id ex_jwt ex_db ex_drawn (Some ''tok-carol'') ''zz'' ?b) = ex_db"
    by simp
  have "case update_orders ex_db (Some ''carol'') ex_drawn ''o1'' ?b of Inl e \<Rightarrow> False | Inr d \<Rightarrow> True"
    by code_simp
  then obtain d where u: "update_orders ex_db (Some ''carol'') ex_drawn ''o1'' ?b = Inr d"
    by (cases "update_orders ex_db (Some ''carol'') ex_drawn ''o1'' ?b") simp_all
  from inst[of _ "''o1''", THEN conjunct2, THEN conjunct2, rule_format, OF u] g st b
  obtain row' where
    "orderStateHistory d = orderStateHistory ex_db @ [row']"
    "h_status row' = rejected"
    "map_option o_status (getOrder d ''o1'') = Some rejected"
    by auto
  with u have r3: "\<exists>db' row. update_orders ex_db (Some ''carol'') ex_drawn ''o1'' ?b = Inr db'
         \<and> orderStateHistory db' = orderStateHistory ex_db @ [row]
         \<and> h_status row = rejected
         \<and> map_option o_status (getOrder db' ''o1'') = Some rejected"
    by blast
  from r1 z r2 r3 show ?thesis by (intro conjI)
qed

text \<open>
  The claim as stated fails: the token of a user who has no profile row passes the
  middleware; the update of the order goes through; the insert of the history row then
  violates the foreign key of \<^verbatim>\<open>changed_by\<close>. The request is answered 500, the status has
  changed, and no history row records it.
\<close>

theorem status_update_not_atomic_counterexample:
  "snd (patch_api_orders_id ex_jwt ex_db ex_drawn (Some ''tok-ghost'') ''o1''
          (empty_body \<lparr> b_status := Some rejected \<rparr>))
     = res_status_json 500 (error_message (db_exception foreign_key_violation))
   \<and> map_option o_status (getOrder ex_db ''o1'') = Some seller_accepted
   \<and> map_option o_status
       (getOrder (fst (patch_api_orders_id ex_jwt ex_db ex_drawn (Some ''tok-ghost'') ''o1''
                         (empty_body \<lparr> b_status := Some rejected \<rparr>))) ''o1'') = Some rejected
   \<and> orderStateHistory (fst (patch_api_orders_id ex_jwt ex_db ex_drawn (Some ''tok-ghost'') ''o1''
                         (empty_body \<lparr> b_status := Some rejected \<rparr>))) = orderStateHistory ex_db"
  by code_simp

subsection \<open>No transition is refused\<close>

text \<open>
  Claim C2. For an order in any stored status and any requested status of the enumeration
  other than the stored one, PATCH /api/orders/:id stores the requested status and
  answers with the updated order: nothing relates the two statuses. (The caller is
  authenticated and has a profile row; what else the body holds, if anything, is
  acceptable to the database: the values of the columns to the update, the note to the
  insert of the history row.)
\<close>

theorem patch_sets_any_status:
  assumes "authMiddleware jwt auth_token = Inr (userId, userRole)"
      and "profile_exists db userId"
      and "getOrder db i = Some order"
      and "b_status body = Some t"
      and "t \<noteq> o_status order"
      and "orders_set_error db body = None"
      and "case b_note body of None \<Rightarrow> True | Some n \<Rightarrow> text_value n"
  shows "\<exists>db' updated.
           patch_api_orders_id jwt db g auth_token i body = (db', res_json (Some updated))
           \<and> getOrder db' i = Some updated
           \<and> o_status updated = t"
proof -
  let ?db1 = "db \<lparr> orders := map (\<lambda>r. if o_id r = i then orders_set body (now_at g) r else r) (orders db) \<rparr>"
  let ?row = "\<lparr> h_id = history_uuid g, h_order_id = i, h_status = the (b_status body),
                h_changed_by = Some userId, h_note = b_note body, h_created_at = now_at g \<rparr>"
  from assms(7) have n: "\<not> (case b_note body of None \<Rightarrow> False | Some n \<Rightarrow> \<not> text_value n)"
    by (cases "b_note body") simp_all
  from patch_found[OF assms(1) assms(3) assms(6), of g] assms(2,4,5) n
  have "patch_api_orders_id jwt db g auth_token i body
          = (?db1 \<lparr> orderStateHistory := orderStateHistory db @ [?row] \<rparr>,
             res_json (Some (orders_set body (now_at g) order)))"
    by (simp add: Let_def)
  moreover have "getOrder (?db1 \<lparr> orderStateHistory := orderStateHistory db @ [?row] \<rparr>) i
          = Some (orders_set body (now_at g) order)"
    using assms(3) by (simp add: getOrder_def find_map_orders_set)
  moreover have "o_status (orders_set body (now_at g) order) = t"
    using assms(4) by (simp add: o_status_orders_set or_default_def)
  ultimately show ?thesis by blast
qed

text \<open>An order that was delivered is set back to \<open>created\<close>, which is not reachable
  from \<open>delivered\<close> in the graph of the specification; \<open>completed\<close> is.\<close>

theorem patch_sets_any_status_witness:
  "authMiddleware ex_jwt (Some ''tok-carol'') = Inr (''carol'', ''admin'')
   \<and> profile_exists ex_db ''carol''
   \<and> map_option o_status (getOrder ex_db ''o2'') = Some delivered
   \<and> status_reachable delivered completed
   \<and> \<not> status_reachable delivered created
   \<and> (\<exists>db' updated.
         patch_api_orders_id ex_jwt ex_db ex_drawn (Some ''tok-carol'') ''o2''
            (empty_body \<lparr> b_status := Some created, b_note := None \<rparr>) = (db', res_json (Some updated))
         \<and> getOrder db' ''o2'' = Some updated
         \<and> o_status updated = created)"
proof -
  let ?o2 = "ex_order \<lparr> o_id := ''o2'', o_customer_id := ''dave'', o_status := delivered,
                   o_created_at := 20, o_updated_at := 20 \<rparr>"
  have a: "authMiddleware ex_jwt (Some ''tok-carol'') = Inr (''carol'', ''admin'')" by code_simp
  have p: "profile_exists ex_db ''carol''" by code_simp
  have g: "getOrder ex_db ''o2'' = Some ?o2" by code_simp
  have b: "b_status (empty_body \<lparr> b_status := Some created, b_note := None \<rparr>) = Some created"
    by simp
  have n: "created \<noteq> o_status ?o2" by simp
  have r: "status_reachable delivered completed" "\<not> status_reachable delivered created"
    by code_simp+
  have t: "case b_note (empty_body \<lparr> b_status := Some created, b_note := None \<rparr>) of
             None \<Rightarrow> True | Some n \<Rightarrow> text_value n"
    by simp
  from patch_sets_any_status[OF a p g b n status_only_body_accepted t, of ex_drawn] a p g r
  show ?thesis by simp
qed

subsection \<open>Actor and note of the history row\<close>

text \<open>
  Claim C3, as amended. Under the trigger, the row appended by a successful status update
  carries \<^verbatim>\<open>auth.uid()\<close>, and its note is the first populated value among
  \<^verbatim>\<open>reject_reason\<close>, \<^verbatim>\<open>seller_response\<close>, \<^verbatim>\<open>buyer_response\<close> of the updated order, null if
  none is. On PATCH /api/orders/:id the appended row carries the id of the acting user, and
  its note is the \<^verbatim>\<open>note\<close> key of the request body, null if the body has none.
\<close>

theorem history_row_actor_and_note:
  "(\<forall>db' updated.
      patch_api_orders_id jwt db g auth_token i body = (db', res_json updated)
      \<and> authMiddleware jwt auth_token = Inr (userId, userRole)
      \<and> getOrder db i = Some order \<and> b_status body = Some t \<and> t \<noteq> o_status order
      \<longrightarrow> (\<exists>row. orderStateHistory db' = orderStateHistory db @ [row]
             \<and> h_status row = t
             \<and> h_changed_by row = Some userId
             \<and> h_note row = b_note body))
   \<and> (\<forall>db'.
      update_orders db auth_uid g i body = Inr db'
      \<and> getOrder db i = Some order \<and> b_status body = Some t \<and> t \<noteq> o_status order
      \<longrightarrow> (\<exists>row NEW. orderStateHistory db' = orderStateHistory db @ [row]
             \<and> getOrder db' i = Some NEW
             \<and> h_status row = o_status NEW
             \<and> h_changed_by row = auth_uid
             \<and> h_note row = first_populated [o_reject_reason NEW, o_seller_response NEW,
                                               o_buyer_response NEW]))"
proof (intro conjI allI impI)
  fix db' updated
  assume h: "patch_api_orders_id jwt db g auth_token i body = (db', res_json updated)
      \<and> authMiddleware jwt auth_token = Inr (userId, userRole)
      \<and> getOrder db i = Some order \<and> b_status body = Some t \<and> t \<noteq> o_status order"
  then have res: "patch_api_orders_id jwt db g auth_token i body = (db', res_json updated)"
    and auth: "authMiddleware jwt auth_token = Inr (userId, userRole)"
    and found: "getOrder db i = Some order" and st: "b_status body = Some t" "t \<noteq> o_status order"
    by simp_all
  from patch_success_found[OF res] have ok: "orders_set_error db body = None" by blast
  from res patch_found[OF auth found ok, of g] st
  show "\<exists>row. orderStateHistory db' = orderStateHistory db @ [row]
             \<and> h_status row = t
             \<and> h_changed_by row = Some userId
             \<and> h_note row = b_note body"
    by (auto simp: Let_def split: if_splits)
next
  fix db'
  assume h: "update_orders db auth_uid g i body = Inr db'
      \<and> getOrder db i = Some order \<and> b_status body = Some t \<and> t \<noteq> o_status order"
  then have u: "update_orders db auth_uid g i body = Inr db'"
    and found: "find (\<lambda>r. o_id r = i) (orders db) = Some order"
    and st: "b_status body = Some t" "t \<noteq> o_status order"
    by (simp_all add: getOrder_def)
  from st have ch: "o_status (orders_set body (now_at g) order) \<noteq> o_status order"
    by (simp add: o_status_orders_set or_default_def)
  from update_orders_Inr[OF u] found ch
  have "orders db' = map (\<lambda>r. if o_id r = i then orders_set body (now_at g) r else r) (orders db)"
    and "orderStateHistory db' = orderStateHistory db @
                    [\<lparr> h_id = history_uuid g, h_order_id = i,
                       h_status = o_status (orders_set body (now_at g) order),
                       h_changed_by = auth_uid,
                       h_note = first_populated [o_reject_reason (orders_set body (now_at g) order),
                                  o_seller_response (orders_set body (now_at g) order),
                                  o_buyer_response (orders_set body (now_at g) order)],
                       h_created_at = now_at g \<rparr>]"
    by simp_all
  moreover from this(1) found have "getOrder db' i = Some (orders_set body (now_at g) order)"
    by (simp add: getOrder_def find_map_orders_set)
  ultimately show "\<exists>row NEW. orderStateHistory db' = orderStateHistory db @ [row]
             \<and> getOrder db' i = Some NEW
             \<and> h_status row = o_status NEW
             \<and> h_changed_by row = auth_uid
             \<and> h_note row = first_populated [o_reject_reason NEW, o_seller_response NEW,
                                               o_buyer_response NEW]"
    by simp
qed

text \<open>An admin rejects an order with a reason and a note; under the trigger the same
  update records the reason.\<close>

theorem history_row_actor_and_note_witness:
  "(\<exists>db' updated row.
      patch_api_orders_id ex_jwt ex_db ex_drawn (Some ''tok-carol'') ''o1''
        (empty_body \<lparr> b_status := Some rejected, b_rejectReason := Some (Some ''out of stock''),
                      b_note := Some ''called the seller'' \<rparr>) = (db', res_json updated)
      \<and> orderStateHistory db' = orderStateHistory ex_db @ [row]
      \<and> h_status row = rejected \<and> h_changed_by row = Some ''carol''
      \<and> h_note row = Some ''called the seller'')
   \<and> (\<exists>db' row.
      update_orders ex_db (Some ''carol'') ex_drawn ''o1''
        (empty_body \<lparr> b_status := Some rejected, b_rejectReason := Some (Some ''out of stock''),
                      b_note := Some ''called the seller'' \<rparr>) = Inr db'
      \<and> orderStateHistory db' = orderStateHistory ex_db @ [row]
      \<and> h_status row = rejected \<and> h_changed_by row = Some ''carol''
      \<and> h_note row = Some ''out of stock'')"
proof -
  let ?b = "empty_body \<lparr> b_status := Some rejected, b_rejectReason := Some (Some ''out of stock''),
                      b_note := Some ''called the seller'' \<rparr>"
  let ?p = "patch_api_orders_id ex_jwt ex_db ex_drawn (Some ''tok-carol'') ''o1'' ?b"
  let ?u = "ex_order \<lparr> o_status := rejected, o_reject_reason := Some ''out of stock'',
                       o_updated_at := 60 \<rparr>"
  note inst = history_row_actor_and_note[of ex_jwt ex_db ex_drawn "Some ''tok-carol''" "''o1''" ?b
      "''carol''" "''admin''" ex_order rejected "Some ''carol''"]
  have a: "authMiddleware ex_jwt (Some ''tok-carol'') = Inr (''carol'', ''admin'')" by code_simp
  have g: "getOrder ex_db ''o1'' = Some ex_order" by code_simp
  have b: "b_status ?b = Some rejected" by simp
  have n: "rejected \<noteq> o_status ex_order" by (simp add: ex_order_def)
  have s: "snd ?p = res_json (Some ?u)" by code_simp
  have e: "?p = (fst ?p, res_json (Some ?u))" by (simp add: s[symmetric])
  from inst[THEN conjunct1, rule_format, of "fst ?p" "Some ?u"] e a g b n
  obtain row where r: "orderStateHistory (fst ?p) = orderStateHistory ex_db @ [row]"
      "h_status row = rejected" "h_changed_by row = Some ''carol''"
      "h_note row = Some ''called the seller''"
    by auto
  with e have r1: "\<exists>db' updated row. ?p = (db', res_json updated)
      \<and> orderStateHistory db' = orderStateHistory ex_db @ [row]
      \<and> h_status row = rejected \<and> h_changed_by row = Some ''carol''
      \<and> h_note row = Some ''called the seller''"
    by blast
  have "case update_orders ex_db (Some ''carol'') ex_drawn ''o1'' ?b of Inl e \<Rightarrow> False | Inr d \<Rightarrow> True"
    by code_simp
  then obtain d where u: "update_orders ex_db (Some ''carol'') ex_drawn ''o1'' ?b = Inr d"
    by (cases "update_orders ex_db (Some ''carol'') ex_drawn ''o1'' ?b") simp_all
  have gd: "map_option (\<lambda>r. (o_status r, o_reject_reason r, o_seller_response r, o_buyer_response r))
              (case update_orders ex_db (Some ''carol'') ex_drawn ''o1'' ?b of
                 Inl e \<Rightarrow> None | Inr d \<Rightarrow> getOrder d ''o1'')
            = Some (rejected, Some ''out of stock'', None, None)"
    by code_simp
  from inst[THEN conjunct2, rule_format, of d] u g b n
  obtain row' NEW where r': "orderStateHistory d = orderStateHistory ex_db @ [row']"
      "getOrder d ''o1'' = Some NEW" "h_status row' = o_status NEW"
      "h_changed_by row' = Some ''carol''"
      "h_note row' = first_populated [o_reject_reason NEW, o_seller_response NEW, o_buyer_response NEW]"
    by auto
  from gd u r'(2) have "o_status NEW = rejected" "o_reject_reason NEW = Some ''out of stock''"
    by simp_all
  with r' have "h_status row' = rejected" "h_note row' = Some ''out of stock''"
    by (simp_all add: first_populated_def)
  with u r' have r2: "\<exists>db' row. update_orders ex_db (Some ''carol'') ex_drawn ''o1'' ?b = Inr db'
      \<and> orderStateHistory db' = orderStateHistory ex_db @ [row]
      \<and> h_status row = rejected \<and> h_changed_by row = Some ''carol''
      \<and> h_note row = Some ''out of stock''"
    by blast
  from r1 r2 show ?thesis by (intro conjI)
qed

text \<open>
  The claim as stated fails on the PATCH route: an admin rejects an order and gives the
  reason in \<^verbatim>\<open>rejectReason\<close>. The request succeeds, the updated order holds the reason, and
  the note of the appended history row is null.
\<close>

theorem patch_note_ignores_reject_reason_counterexample:
  "snd (patch_api_orders_id ex_jwt ex_db ex_drawn (Some ''tok-carol'') ''o1''
          (empty_body \<lparr> b_status := Some rejected, b_rejectReason := Some (Some ''out of stock'') \<rparr>))
     = res_json (Some (ex_order \<lparr> o_status := rejected, o_reject_reason := Some ''out of stock'',
                                   o_updated_at := 60 \<rparr>))
   \<and> first_populated
        [o_reject_reason (ex_order \<lparr> o_status := rejected, o_reject_reason := Some ''out of stock'',
                                      o_updated_at := 60 \<rparr>),
         o_seller_response (ex_order \<lparr> o_status := rejected, o_reject_reason := Some ''out of stock'',
                                      o_updated_at := 60 \<rparr>),
         o_buyer_response (ex_order \<lparr> o_status := rejected, o_reject_reason := Some ''out of stock'',
                                      o_updated_at := 60 \<rparr>)] = Some ''out of stock''
   \<and> orderStateHistory (fst (patch_api_orders_id ex_jwt ex_db ex_drawn (Some ''tok-carol'') ''o1''
          (empty_body \<lparr> b_status := Some rejected, b_rejectReason := Some (Some ''out of stock'') \<rparr>)))
     = orderStateHistory ex_db @
         [\<lparr> h_id = ''h9'', h_order_id = ''o1'', h_status = rejected, h_changed_by = Some ''carol'',
            h_note = None, h_created_at = 60 \<rparr>]"
  by code_simp

subsection \<open>Updates that keep the status\<close>

text \<open>
  Claim C4. An update whose status equals the stored one (or that has no status) appends
  no history row, on the PATCH route and under the trigger alike: whenever an update has
  added a history row, its status differed from the stored one.
\<close>

theorem same_status_appends_no_history:
  "(getOrder db i = Some order \<and> (b_status body = Some (o_status order) \<or> b_status body = None)
      \<longrightarrow> orderStateHistory (fst (patch_api_orders_id jwt db g auth_token i body))
            = orderStateHistory db)
   \<and> (orderStateHistory (fst (patch_api_orders_id jwt db g auth_token i body)) \<noteq> orderStateHistory db
      \<longrightarrow> (\<exists>order t. getOrder db i = Some order \<and> b_status body = Some t \<and> t \<noteq> o_status order))
   \<and> (\<forall>db'. update_orders db auth_uid g i body = Inr db' \<longrightarrow>
        (getOrder db i = Some order \<and> (b_status body = Some (o_status order) \<or> b_status body = None)
           \<longrightarrow> orderStateHistory db' = orderStateHistory db)
        \<and> (orderStateHistory db' \<noteq> orderStateHistory db
           \<longrightarrow> (\<exists>order t. getOrder db i = Some order \<and> b_status body = Some t \<and> t \<noteq> o_status order)))"
proof -
  have patch: "orderStateHistory (fst (patch_api_orders_id jwt db g auth_token i body)) \<noteq> orderStateHistory db
      \<Longrightarrow> \<exists>order t. getOrder db i = Some order \<and> b_status body = Some t \<and> t \<noteq> o_status order"
  proof -
    assume ne: "orderStateHistory (fst (patch_api_orders_id jwt db g auth_token i body)) \<noteq> orderStateHistory db"
    have n1: "authMiddleware jwt auth_token \<noteq> Inl x" for x
    proof
      assume "authMiddleware jwt auth_token = Inl x"
      then have "fst (patch_api_orders_id jwt db g auth_token i body) = db"
        by (intro patch_refused disjI1)
      with ne show False by simp
    qed
    have n2: "getOrder db i \<noteq> None"
    proof
      assume "getOrder db i = None"
      then have "fst (patch_api_orders_id jwt db g auth_token i body) = db"
        by (intro patch_refused[where x = undefined] disjI2 disjI1)
      with ne show False by simp
    qed
    have nerr: "updateOrder db g i body \<noteq> Inl e" for e
    proof
      assume "updateOrder db g i body = Inl e"
      then have "fst (patch_api_orders_id jwt db g auth_token i body) = db"
        by (intro patch_refused[where x = undefined] disjI2 exI[of _ e])
      with ne show False by simp
    qed
    from n1 obtain userId userRole where auth: "authMiddleware jwt auth_token = Inr (userId, userRole)"
      by (cases "authMiddleware jwt auth_token") auto
    from n2 obtain ord where found: "getOrder db i = Some ord" by auto
    have ok: "orders_set_error db body = None"
    proof (cases "orders_set_error db body")
      case (Some e)
      with updateOrder_error[OF found Some, of g] nerr[of e] show ?thesis by simp
    qed simp
    from ne patch_found[OF auth found ok, of g]
    have "b_status body \<noteq> None \<and> b_status body \<noteq> Some (o_status ord)"
      by (auto simp: Let_def split: if_splits)
    with found show ?thesis by auto
  qed
  have trig: "\<And>db'. update_orders db auth_uid g i body = Inr db' \<Longrightarrow>
        orderStateHistory db' \<noteq> orderStateHistory db
        \<Longrightarrow> \<exists>order t. getOrder db i = Some order \<and> b_status body = Some t \<and> t \<noteq> o_status order"
  proof -
    fix db' assume u: "update_orders db auth_uid g i body = Inr db'"
      and ne: "orderStateHistory db' \<noteq> orderStateHistory db"
    from update_orders_Inr[OF u] ne show
      "\<exists>order t. getOrder db i = Some order \<and> b_status body = Some t \<and> t \<noteq> o_status order"
      by (cases "find (\<lambda>r. o_id r = i) (orders db)")
         (auto simp: getOrder_def o_status_orders_set or_default_def split: if_splits option.splits)
  qed
  show ?thesis
  proof (intro conjI allI impI)
    assume h: "getOrder db i = Some order \<and> (b_status body = Some (o_status order) \<or> b_status body = None)"
    show "orderStateHistory (fst (patch_api_orders_id jwt db g auth_token i body)) = orderStateHistory db"
    proof (rule ccontr)
      assume "orderStateHistory (fst (patch_api_orders_id jwt db g auth_token i body)) \<noteq> orderStateHistory db"
      from patch[OF this] h show False by auto
    qed
  next
    assume "orderStateHistory (fst (patch_api_orders_id jwt db g auth_token i body)) \<noteq> orderStateHistory db"
    then show "\<exists>order t. getOrder db i = Some order \<and> b_status body = Some t \<and> t \<noteq> o_status order"
      by (rule patch)
  next
    fix db'
    assume u: "update_orders db auth_uid g i body = Inr db'"
      and h: "getOrder db i = Some order \<and> (b_status body = Some (o_status order) \<or> b_status body = None)"
    show "orderStateHistory db' = orderStateHistory db"
    proof (rule ccontr)
      assume "orderStateHistory db' \<noteq> orderStateHistory db"
      from trig[OF u this] h show False by auto
    qed
  next
    fix db'
    assume "update_orders db auth_uid g i body = Inr db'"
      and "orderStateHistory db' \<noteq> orderStateHistory db"
    then show "\<exists>order t. getOrder db i = Some order \<and> b_status body = Some t \<and> t \<noteq> o_status order"
      by (rule trig)
  qed
qed

theorem same_status_appends_no_history_witness:
  "getOrder ex_db ''o1'' = Some ex_order
   \<and> b_status (empty_body \<lparr> b_status := Some seller_accepted, b_sellerResponse := Some (Some ''ok'') \<rparr>)
       = Some (o_status ex_order)
   \<and> orderStateHistory (fst (patch_api_orders_id ex_jwt ex_db ex_drawn (Some ''tok-carol'') ''o1''
         (empty_body \<lparr> b_status := Some seller_accepted, b_sellerResponse := Some (Some ''ok'') \<rparr>)))
       = orderStateHistory ex_db
   \<and> map_option o_seller_response
        (getOrder (fst (patch_api_orders_id ex_jwt ex_db ex_drawn (Some ''tok-carol'') ''o1''
         (empty_body \<lparr> b_status := Some seller_accepted, b_sellerResponse := Some (Some ''ok'') \<rparr>))) ''o1'')
       = Some (Some ''ok'')
   \<and> (\<exists>db'. update_orders ex_db (Some ''carol'') ex_drawn ''o1''
         (empty_body \<lparr> b_status := Some seller_accepted, b_sellerResponse := Some (Some ''ok'') \<rparr>) = Inr db'
         \<and> orderStateHistory db' = orderStateHistory ex_db)"
proof -
  let ?b = "empty_body \<lparr> b_status := Some seller_accepted, b_sellerResponse := Some (Some ''ok'') \<rparr>"
  note inst = same_status_appends_no_history[of ex_db "''o1''" ex_order ?b ex_jwt ex_drawn
      "Some ''tok-carol''" "Some ''carol''"]
  have g: "getOrder ex_db ''o1'' = Some ex_order" by code_simp
  have b: "b_status ?b = Some (o_status ex_order)" by (simp add: ex_order_def)
  from inst[THEN conjunct1] g b
  have r1: "orderStateHistory (fst (patch_api_orders_id ex_jwt ex_db ex_drawn (Some ''tok-carol'') ''o1'' ?b))
       = orderStateHistory ex_db" by simp
  have r2: "map_option o_seller_response
        (getOrder (fst (patch_api_orders_id ex_jwt ex_db ex_drawn (Some ''tok-carol'') ''o1'' ?b)) ''o1'')
       = Some (Some ''ok'')" by code_simp
  have "case update_orders ex_db (Some ''carol'') ex_drawn ''o1'' ?b of Inl e \<Rightarrow> False | Inr d \<Rightarrow> True"
    by code_simp
  then obtain d where u: "update_orders ex_db (Some ''carol'') ex_drawn ''o1'' ?b = Inr d"
    by (cases "update_orders ex_db (Some ''carol'') ex_drawn ''o1'' ?b") simp_all
  from inst[THEN conjunct2, THEN conjunct2, rule_format, OF u, THEN conjunct1] g b
  have "orderStateHistory d = orderStateHistory ex_db" by simp
  with u have r3: "\<exists>db'. update_orders ex_db (Some ''carol'') ex_drawn ''o1'' ?b = Inr db'
         \<and> orderStateHistory db' = orderStateHistory ex_db" by blast
  from g b r1 r2 r3 show ?thesis by (intro conjI)
qed

subsection \<open>Order creation on the server\<close>

text \<open>
  Claim C5, as amended. On order creation via POST /api/orders the server stores the
  subtotal, the total and the prepayment amount that the client submitted (rounded to two
  decimals by their columns; a prepayment that was not submitted is null) and the status
  the client submitted, or \<^verbatim>\<open>created\<close> when it submitted none. Of the order's fields it
  sets only \<^verbatim>\<open>customer_id\<close>, to the id of the authenticated user; it computes nothing from
  the item list or the payment method. Every other column holds the value that the client
  submitted for it or, when it submitted none, the default of the column; the id and the
  two timestamps are those that the database draws. The request adds this row to
  \<^verbatim>\<open>orders\<close> and one history row with the stored status and that user, and nothing else.
\<close>

theorem post_stores_submitted_values:
  assumes "post_api_orders jwt db g auth_token body = (db', res_json order)"
  shows "\<exists>userId userRole. authMiddleware jwt auth_token = Inr (userId, userRole)
           \<and> o_customer_id order = userId
           \<and> b_items body = Some (o_items order)
           \<and> map_option round2 (b_subtotal body) = Some (o_subtotal order)
           \<and> map_option round2 (b_total body) = Some (o_total order)
           \<and> o_prepayment_amount order = map_option round2 (or_default (b_prepaymentAmount body) None)
           \<and> b_paymentMethod body = Some (o_payment_method order)
           \<and> o_status order = or_default (b_status body) created
           \<and> b_sellerId body = Some (o_seller_id order)
           \<and> o_delivery_charges order = map_option round2 (or_default (b_deliveryCharges body) (Some 0))
           \<and> o_payment_status order = or_default (b_paymentStatus body) pending
           \<and> b_deliveryAddress body = Some (o_delivery_address order)
           \<and> o_verified_by_admin_id order = or_default (b_verifiedByAdminId body) None
           \<and> o_seller_response order = or_default (b_sellerResponse body) None
           \<and> o_buyer_response order = or_default (b_buyerResponse body) None
           \<and> o_reject_reason order = or_default (b_rejectReason body) None
           \<and> o_contact_attempts order = map_option floor (or_default (b_contactAttempts body) (Some 0))
           \<and> o_id order = order_uuid g
           \<and> o_created_at order = now_at g
           \<and> o_updated_at order = now_at g
           \<and> db' = db \<lparr> orders := orders db @ [order],
                         orderStateHistory := orderStateHistory db @
               [\<lparr> h_id = history_uuid g, h_order_id = o_id order, h_status = o_status order,
                  h_changed_by = Some userId, h_note = None, h_created_at = now_at g \<rparr>] \<rparr>"
proof -
  from post_success[OF assms] obtain userId userRole where
    auth: "authMiddleware jwt auth_token = Inr (userId, userRole)"
    and new: "orders_new_row db (order_uuid g) (now_at g)
                (body \<lparr> b_customerId := Some userId, b_note := None \<rparr>) = Inr order"
    and tables: "db' = db \<lparr> orders := orders db @ [order],
                         orderStateHistory := orderStateHistory db @
               [\<lparr> h_id = history_uuid g, h_order_id = o_id order, h_status = o_status order,
                  h_changed_by = Some userId, h_note = None, h_created_at = now_at g \<rparr>] \<rparr>"
    by blast
  from orders_new_row_Inr[OF new]
  have "o_customer_id order = userId" "b_items body = Some (o_items order)"
    "map_option round2 (b_subtotal body) = Some (o_subtotal order)"
    "map_option round2 (b_total body) = Some (o_total order)"
    "o_prepayment_amount order = map_option round2 (or_default (b_prepaymentAmount body) None)"
    "b_paymentMethod body = Some (o_payment_method order)"
    "o_status order = or_default (b_status body) created"
    "b_sellerId body = Some (o_seller_id order)"
    "o_delivery_charges order = map_option round2 (or_default (b_deliveryCharges body) (Some 0))"
    "o_payment_status order = or_default (b_paymentStatus body) pending"
    "b_deliveryAddress body = Some (o_delivery_address order)"
    "o_verified_by_admin_id order = or_default (b_verifiedByAdminId body) None"
    "o_seller_response order = or_default (b_sellerResponse body) None"
    "o_buyer_response order = or_default (b_buyerResponse body) None"
    "o_reject_reason order = or_default (b_rejectReason body) None"
    "o_contact_attempts order = map_option floor (or_default (b_contactAttempts body) (Some 0))"
    "o_id order = order_uuid g" "o_created_at order = now_at g" "o_updated_at order = now_at g"
    by simp_all
  with auth tables show ?thesis by blast
qed

text \<open>A body with consistent amounts and no status, sent by alice with the customer id of
  dave: the order is stored for alice, with the status \<open>created\<close>, the defaults of the
  columns that the body leaves out and no prepayment amount, although it is paid on
  delivery.\<close>

theorem post_stores_submitted_values_witness:
  "\<exists>db'.
      post_api_orders ex_jwt ex_db ex_drawn (Some ''tok-alice'')
          (ex_body \<lparr> b_customerId := Some ''dave'' \<rparr>)
        = (db', res_json \<lparr> o_id = ''o9'', o_customer_id = ''alice'', o_seller_id = ''s1'',
             o_items = ex_items, o_subtotal = 500, o_delivery_charges = Some 50, o_total = 550,
             o_payment_method = cod, o_payment_status = pending, o_prepayment_amount = None,
             o_status = created, o_delivery_address = ex_address, o_verified_by_admin_id = None,
             o_seller_response = None, o_buyer_response = None, o_reject_reason = None,
             o_contact_attempts = Some 0, o_created_at = 60, o_updated_at = 60 \<rparr>)
      \<and> map o_id (orders db') = map o_id (orders ex_db) @ [''o9'']
      \<and> map h_status (orderStateHistory db') = map h_status (orderStateHistory ex_db) @ [created]
      \<and> profiles db' = profiles ex_db \<and> sellers db' = sellers ex_db"
proof -
  let ?b = "ex_body \<lparr> b_customerId := Some ''dave'' \<rparr>"
  let ?p = "post_api_orders ex_jwt ex_db ex_drawn (Some ''tok-alice'') ?b"
  have "case snd ?p of res_json order \<Rightarrow> True | res_status_json c e \<Rightarrow> False" by code_simp
  then obtain order where s: "snd ?p = res_json order" by (cases "snd ?p") simp_all
  then have e: "?p = (fst ?p, res_json order)" by (simp add: s[symmetric])
  have a: "authMiddleware ex_jwt (Some ''tok-alice'') = Inr (''alice'', ''customer'')" by code_simp
  have b: "b_subtotal ?b = Some 500" "b_total ?b = Some 550" "b_items ?b = Some ex_items"
    "b_prepaymentAmount ?b = None" "b_status ?b = None" "b_paymentMethod ?b = Some cod"
    "b_sellerId ?b = Some ''s1''" "b_deliveryCharges ?b = Some (Some 50)"
    "b_paymentStatus ?b = None" "b_deliveryAddress ?b = Some ex_address"
    "b_verifiedByAdminId ?b = None" "b_sellerResponse ?b = None" "b_buyerResponse ?b = None"
    "b_rejectReason ?b = None" "b_contactAttempts ?b = None"
    by (simp_all add: ex_body_def empty_body_def)
  have r: "round2 500 = 500" "round2 550 = 550" "round2 50 = 50" "\<lfloor>0::rat\<rfloor> = 0" by code_simp+
  have d: "order_uuid ex_drawn = ''o9''" "now_at ex_drawn = 60" by (simp_all add: ex_drawn_def)
  from post_stores_submitted_values[OF e] a
  have f: "o_customer_id order = ''alice''"
    "b_items ?b = Some (o_items order)"
    "map_option round2 (b_subtotal ?b) = Some (o_subtotal order)"
    "map_option round2 (b_total ?b) = Some (o_total order)"
    "o_prepayment_amount order = map_option round2 (or_default (b_prepaymentAmount ?b) None)"
    "b_paymentMethod ?b = Some (o_payment_method order)"
    "o_status order = or_default (b_status ?b) created"
    "b_sellerId ?b = Some (o_seller_id order)"
    "o_delivery_charges order = map_option round2 (or_default (b_deliveryCharges ?b) (Some 0))"
    "o_payment_status order = or_default (b_paymentStatus ?b) pending"
    "b_deliveryAddress ?b = Some (o_delivery_address order)"
    "o_verified_by_admin_id order = or_default (b_verifiedByAdminId ?b) None"
    "o_seller_response order = or_default (b_sellerResponse ?b) None"
    "o_buyer_response order = or_default (b_buyerResponse ?b) None"
    "o_reject_reason order = or_default (b_rejectReason ?b) None"
    "o_contact_attempts order = map_option floor (or_default (b_contactAttempts ?b) (Some 0))"
    "o_id order = order_uuid ex_drawn"
    "o_created_at order = now_at ex_drawn"
    "o_updated_at order = now_at ex_drawn"
    and t: "fst ?p = ex_db \<lparr> orders := orders ex_db @ [order],
                         orderStateHistory := orderStateHistory ex_db @
               [\<lparr> h_id = history_uuid ex_drawn, h_order_id = o_id order, h_status = o_status order,
                  h_changed_by = Some ''alice'', h_note = None, h_created_at = now_at ex_drawn \<rparr>] \<rparr>"
    by auto
  from f have o: "order = \<lparr> o_id = ''o9'', o_customer_id = ''alice'', o_seller_id = ''s1'',
             o_items = ex_items, o_subtotal = 500, o_delivery_charges = Some 50, o_total = 550,
             o_payment_method = cod, o_payment_status = pending, o_prepayment_amount = None,
             o_status = created, o_delivery_address = ex_address, o_verified_by_admin_id = None,
             o_seller_response = None, o_buyer_response = None, o_reject_reason = None,
             o_contact_attempts = Some 0, o_created_at = 60, o_updated_at = 60 \<rparr>"
    unfolding b d by (cases order) (simp add: or_default_def r)
  have t1: "map o_id (orders (fst ?p)) = map o_id (orders ex_db) @ [''o9'']"
    by (subst t) (simp add: o)
  have t2: "map h_status (orderStateHistory (fst ?p))
              = map h_status (orderStateHistory ex_db) @ [created]"
    by (subst t) (simp add: o)
  have t3: "profiles (fst ?p) = profiles ex_db" "sellers (fst ?p) = sellers ex_db"
    by (subst t, simp)+
  from e o t1 t2 t3 show ?thesis by (intro exI[of _ "fst ?p"]) simp
qed

text \<open>
  The claim as stated fails: the client submits a subtotal of 1, a total of 2, a
  prepayment of 7 and the status \<open>delivered\<close> for 100 bricks at 5.00, and the customer id
  of somebody else. The server stores the amounts and the status as submitted; only the
  customer id is its own.
\<close>

theorem post_stores_client_amounts_counterexample:
  "snd (post_api_orders ex_jwt ex_db ex_drawn (Some ''tok-alice'')
          (ex_body \<lparr> b_customerId := Some ''dave'', b_subtotal := Some 1, b_total := Some 2,
                     b_prepaymentAmount := Some (Some 7), b_status := Some delivered \<rparr>))
     = res_json \<lparr> o_id = ''o9'', o_customer_id = ''alice'', o_seller_id = ''s1'',
         o_items = ex_items, o_subtotal = 1, o_delivery_charges = Some 50, o_total = 2,
         o_payment_method = cod, o_payment_status = pending, o_prepayment_amount = Some 7,
         o_status = delivered, o_delivery_address = ex_address, o_verified_by_admin_id = None,
         o_seller_response = None, o_buyer_response = None, o_reject_reason = None,
         o_contact_attempts = Some 0, o_created_at = 60, o_updated_at = 60 \<rparr>
   \<and> items_subtotal ex_items = 500
   \<and> round2 ((items_subtotal ex_items + 50) * 0.2) = 110"
  by code_simp

subsection \<open>Prepayment\<close>

text \<open>
  Claim C6, as amended. For every order that the checkout page (handleCheckout) creates:
  when the payment method is cod, the stored \<^verbatim>\<open>prepayment_amount\<close> is
  round(total * 0.20, 2) of the stored total; when it is online, the stored
  \<^verbatim>\<open>prepayment_amount\<close> is null.
\<close>

theorem checkout_prepayment:
  assumes "handleCheckout g db user paymentMethod address cartItems = (db', result)"
  shows "\<exists>new. orders db' = orders db @ new
           \<and> (result = order_placed
                \<longrightarrow> map o_seller_id new = first_occurrences (map c_seller_id cartItems))
           \<and> (\<forall>r\<in>set new. o_payment_method r = paymentMethod \<and> prepayment_rule r
                  \<and> (paymentMethod = cod \<longrightarrow> o_prepayment_amount r = Some (round2 (o_total r * 0.2)))
                  \<and> (paymentMethod = online \<longrightarrow> o_prepayment_amount r = None))"
proof -
  have "\<exists>new. orders db' = orders db @ new
      \<and> (\<forall>r\<in>set new. o_payment_method r = paymentMethod \<and> prepayment_rule r)
      \<and> (result = order_placed \<longrightarrow> map o_seller_id new = first_occurrences (map c_seller_id cartItems))"
  proof (rule handleCheckout_orders[OF _ assms])
    fix u d0 k sid d1
    assume "insert_into_orders d0 (Some u) (g k)
          (orderData u sid paymentMethod address (sellerGroup cartItems sid)) = Inr d1"
    from insert_checkout_prepayment[OF this]
    show "\<exists>NEW. orders d1 = orders d0 @ [NEW] \<and> o_seller_id NEW = sid
           \<and> (o_payment_method NEW = paymentMethod \<and> prepayment_rule NEW)"
      by blast
  qed
  then obtain new where
    n: "orders db' = orders db @ new"
      "\<forall>r\<in>set new. o_payment_method r = paymentMethod \<and> prepayment_rule r"
      "result = order_placed \<longrightarrow> map o_seller_id new = first_occurrences (map c_seller_id cartItems)"
    by blast
  from n(2) have "\<forall>r\<in>set new. o_payment_method r = paymentMethod \<and> prepayment_rule r
                  \<and> (paymentMethod = cod \<longrightarrow> o_prepayment_amount r = Some (round2 (o_total r * 0.2)))
                  \<and> (paymentMethod = online \<longrightarrow> o_prepayment_amount r = None)"
    by (auto simp: prepayment_rule_def)
  with n(1,3) show ?thesis by blast
qed

text \<open>The cart of the example, paid on delivery: two orders, of totals 600.00 and 149.99,
  with prepayments 120.00 and 30.00. Paid online: no prepayment.\<close>

theorem checkout_prepayment_witness:
  "(\<exists>db' new.
        handleCheckout ex_gen ex_db (Some ''alice'') cod ex_address ex_cart = (db', order_placed)
        \<and> orders db' = orders ex_db @ new
        \<and> map o_total new = [600, 149.99]
        \<and> map o_prepayment_amount new = [Some 120, Some 30]
        \<and> list_all prepayment_rule new)
   \<and> (\<exists>db' new.
        handleCheckout ex_gen ex_db (Some ''alice'') online ex_address ex_cart = (db', order_placed)
        \<and> orders db' = orders ex_db @ new
        \<and> map o_prepayment_amount new = [None, None]
        \<and> list_all prepayment_rule new)"
proof -
  let ?c = "handleCheckout ex_gen ex_db (Some ''alice'') cod ex_address ex_cart"
  let ?o = "handleCheckout ex_gen ex_db (Some ''alice'') online ex_address ex_cart"
  have len: "length (orders ex_db) = 3" by code_simp
  have sc: "snd ?c = order_placed" by code_simp
  have so: "snd ?o = order_placed" by code_simp
  have ec: "?c = (fst ?c, order_placed)" by (simp add: sc[symmetric])
  have eo: "?o = (fst ?o, order_placed)" by (simp add: so[symmetric])
  have vc: "map o_total (drop 3 (orders (fst ?c))) = [600, 149.99]"
    "map o_prepayment_amount (drop 3 (orders (fst ?c))) = [Some 120, Some 30]"
    by code_simp+
  have vo: "map o_prepayment_amount (drop 3 (orders (fst ?o))) = [None, None]"
    by code_simp
  from checkout_prepayment[OF ec] obtain new where
    c: "orders (fst ?c) = orders ex_db @ new" "\<forall>r\<in>set new. prepayment_rule r"
    by blast
  from c(1) len have "drop 3 (orders (fst ?c)) = new" by simp
  with vc c ec have r1: "\<exists>db' new. ?c = (db', order_placed)
        \<and> orders db' = orders ex_db @ new
        \<and> map o_total new = [600, 149.99]
        \<and> map o_prepayment_amount new = [Some 120, Some 30]
        \<and> list_all prepayment_rule new"
    by (metis list_all_iff)
  from checkout_prepayment[OF eo] obtain new' where
    o: "orders (fst ?o) = orders ex_db @ new'" "\<forall>r\<in>set new'. prepayment_rule r"
    by blast
  from o(1) len have "drop 3 (orders (fst ?o)) = new'" by simp
  with vo o eo have r2: "\<exists>db' new. ?o = (db', order_placed)
        \<and> orders db' = orders ex_db @ new
        \<and> map o_prepayment_amount new = [None, None]
        \<and> list_all prepayment_rule new"
    by (metis list_all_iff)
  from r1 r2 show ?thesis by (intro conjI)
qed

text \<open>
  The claim as stated fails for an order created through POST /api/orders: the body names
  the payment method cod and a total of 550.00 and no prepayment amount. The order is
  created with a null prepayment amount; round(550.00 * 0.20, 2) is 110.00.
\<close>

theorem cod_order_without_prepayment_counterexample:
  "\<exists>order. snd (post_api_orders ex_jwt ex_db ex_drawn (Some ''tok-alice'') ex_body) = res_json order
     \<and> o_payment_method order = cod \<and> o_total order = 550
     \<and> o_prepayment_amount order = None
     \<and> round2 (o_total order * 0.2) = 110
     \<and> \<not> prepayment_rule order"
proof -
  let ?order = "\<lparr> o_id = ''o9'', o_customer_id = ''alice'', o_seller_id = ''s1'',
         o_items = ex_items, o_subtotal = 500, o_delivery_charges = Some 50, o_total = 550,
         o_payment_method = cod, o_payment_status = pending, o_prepayment_amount = None,
         o_status = created, o_delivery_address = ex_address, o_verified_by_admin_id = None,
         o_seller_response = None, o_buyer_response = None, o_reject_reason = None,
         o_contact_attempts = Some 0, o_created_at = 60, o_updated_at = 60 \<rparr>"
  have "snd (post_api_orders ex_jwt ex_db ex_drawn (Some ''tok-alice'') ex_body) = res_json ?order"
    by code_simp
  moreover have "round2 (550 * 0.2) = 110" by code_simp
  ultimately show ?thesis
    by (intro exI[of _ ?order]) (simp add: prepayment_rule_def)
qed

subsection \<open>Total and subtotal\<close>




subsection \<open>The history query\<close>

text \<open>
  Claim C8. For an order with N recorded transitions (N rows of \<^verbatim>\<open>order_state_history\<close>
  carry its id) the history query returns exactly these N rows, ordered by creation time
  descending; GET /api/orders/:id/history answers an authenticated requester with that
  list.
\<close>

theorem getOrderStateHistory_rows:
  "length (getOrderStateHistory db orderId)
     = length (filter (\<lambda>h. h_order_id h = orderId) (orderStateHistory db))
   \<and> mset (getOrderStateHistory db orderId)
     = mset (filter (\<lambda>h. h_order_id h = orderId) (orderStateHistory db))
   \<and> sorted_wrt (\<lambda>a b. h_created_at b \<le> h_created_at a) (getOrderStateHistory db orderId)
   \<and> (\<forall>jwt auth_token userId userRole.
         authMiddleware jwt auth_token = Inr (userId, userRole) \<longrightarrow>
         get_api_orders_id_history jwt db auth_token orderId
           = res_json (getOrderStateHistory db orderId))"
  by (simp add: getOrderStateHistory_def length_order_by_desc mset_order_by_desc
      sorted_order_by_desc get_api_orders_id_history_def)

theorem getOrderStateHistory_rows_witness:
  "length (filter (\<lambda>h. h_order_id h = ''o1'') (orderStateHistory ex_db)) = 3
   \<and> length (getOrderStateHistory ex_db ''o1'') = 3
   \<and> map h_created_at (getOrderStateHistory ex_db ''o1'') = [50, 40, 10]
   \<and> map h_status (getOrderStateHistory ex_db ''o1'')
        = [seller_accepted, seller_contacted, pending_verification]
   \<and> authMiddleware ex_jwt (Some ''tok-carol'') = Inr (''carol'', ''admin'')
   \<and> get_api_orders_id_history ex_jwt ex_db (Some ''tok-carol'') ''o1''
        = res_json (getOrderStateHistory ex_db ''o1'')"
proof -
  have n: "length (filter (\<lambda>h. h_order_id h = ''o1'') (orderStateHistory ex_db)) = 3"
    by code_simp
  have t: "map h_created_at (getOrderStateHistory ex_db ''o1'') = [50, 40, 10]"
    by code_simp
  have s: "map h_status (getOrderStateHistory ex_db ''o1'')
        = [seller_accepted, seller_contacted, pending_verification]"
    by code_simp
  have a: "authMiddleware ex_jwt (Some ''tok-carol'') = Inr (''carol'', ''admin'')"
    by code_simp
  from getOrderStateHistory_rows[of ex_db "''o1''"] n a t s show ?thesis
    by simp
qed

subsection \<open>Visibility of the order list\<close>



subsection \<open>Single-order endpoints\<close>

text \<open>
  Claim C10. GET /api/orders/:id and GET /api/orders/:id/history answer any two
  authenticated requesters alike, whoever they are and whatever their role: for an
  existing order both get the order, and both get its history.
\<close>

theorem single_order_endpoints_ignore_requester:
  assumes "authMiddleware jwt token1 = Inr (userId1, userRole1)"
      and "authMiddleware jwt token2 = Inr (userId2, userRole2)"
      and "getOrder db id' = Some order"
  shows "get_api_orders_id jwt db token1 id' = res_json order
       \<and> get_api_orders_id jwt db token2 id' = get_api_orders_id jwt db token1 id'
       \<and> get_api_orders_id_history jwt db token1 id' = res_json (getOrderStateHistory db id')
       \<and> get_api_orders_id_history jwt db token2 id' = get_api_orders_id_history jwt db token1 id'"
  using assms by (simp add: get_api_orders_id_def get_api_orders_id_history_def)

theorem single_order_endpoints_ignore_requester_witness:
  "authMiddleware ex_jwt (Some ''tok-alice'') = Inr (''alice'', ''customer'')
   \<and> authMiddleware ex_jwt (Some ''tok-bob'') = Inr (''bob'', ''seller'')
   \<and> getOrder ex_db ''o3'' = Some (ex_order \<lparr> o_id := ''o3'', o_customer_id := ''dave'',
          o_seller_id := ''s2'', o_status := seller_contacted, o_created_at := 30,
          o_updated_at := 30 \<rparr>)
   \<and> o_customer_id (ex_order \<lparr> o_id := ''o3'', o_customer_id := ''dave'',
          o_seller_id := ''s2'', o_status := seller_contacted, o_created_at := 30,
          o_updated_at := 30 \<rparr>) = ''dave''
   \<and> get_api_orders_id ex_jwt ex_db (Some ''tok-bob'') ''o3''
        = get_api_orders_id ex_jwt ex_db (Some ''tok-alice'') ''o3''
   \<and> get_api_orders_id ex_jwt ex_db (Some ''tok-alice'') ''o3''
        = res_json (ex_order \<lparr> o_id := ''o3'', o_customer_id := ''dave'',
          o_seller_id := ''s2'', o_status := seller_contacted, o_created_at := 30,
          o_updated_at := 30 \<rparr>)
   \<and> get_api_orders_id_history ex_jwt ex_db (Some ''tok-bob'') ''o3''
        = get_api_orders_id_history ex_jwt ex_db (Some ''tok-alice'') ''o3''"
proof -
  have a: "authMiddleware ex_jwt (Some ''tok-alice'') = Inr (''alice'', ''customer'')"
    by code_simp
  have b: "authMiddleware ex_jwt (Some ''tok-bob'') = Inr (''bob'', ''seller'')"
    by code_simp
  have c: "getOrder ex_db ''o3'' = Some (ex_order \<lparr> o_id := ''o3'', o_customer_id := ''dave'',
          o_seller_id := ''s2'', o_status := seller_contacted, o_created_at := 30,
          o_updated_at := 30 \<rparr>)"
    by code_simp
  from single_order_endpoints_ignore_requester[OF a b c] a b c show ?thesis
    by simp
qed

end
